theory Spec2Isabelle
  imports Complex_Main
begin

section \<open>Python values\<close>

text \<open>
  The client of \<^verbatim>\<open>pkg/client.py\<close> handles values decoded from JSON: REST response
  bodies (\<^verbatim>\<open>r.json()\<close>) and MQTT payloads (\<^verbatim>\<open>json.loads\<close>). A JSON object is an
  association list in document order; \<^verbatim>\<open>JNull\<close> is Python's \<^verbatim>\<open>None\<close>. A float is a
  rational (every finite double is one).
\<close>

datatype json =
    JNull
  | JBool bool
  | JInt int
  | JFloat rat
  | JString string
  | JArray "json list"
  | JObject "(string \<times> json) list"

text \<open>The exceptions that the modelled code can raise or let through.\<close>

datatype error =
    ValueError
  | TypeError
  | KeyError
  | AttributeError
  | IndexError
  | RuntimeError
  | OSError

text \<open>Truth value of a decoded value, as \<^verbatim>\<open>if x\<close> and \<^verbatim>\<open>not x\<close> test it.\<close>

fun truthy :: "json \<Rightarrow> bool" where
  "truthy JNull = False"
| "truthy (JBool b) = b"
| "truthy (JInt i) = (i \<noteq> 0)"
| "truthy (JFloat r) = (r \<noteq> 0)"
| "truthy (JString s) = (s \<noteq> [])"
| "truthy (JArray xs) = (xs \<noteq> [])"
| "truthy (JObject kvs) = (kvs \<noteq> [])"

fun starts_with :: "string \<Rightarrow> string \<Rightarrow> bool" where
  "starts_with [] ys = True"
| "starts_with (x # xs) [] = False"
| "starts_with (x # xs) (y # ys) = (x = y \<and> starts_with xs ys)"

text \<open>\<^verbatim>\<open>needle in s\<close> on two strings: substring test.\<close>

fun contains :: "string \<Rightarrow> string \<Rightarrow> bool" where
  "contains xs [] = (xs = [])"
| "contains xs (y # ys) = (starts_with xs (y # ys) \<or> contains xs ys)"

text \<open>
  \<^verbatim>\<open>key in x\<close> for a string literal \<^verbatim>\<open>key\<close>: key membership on an object, element
  membership on an array, substring test on a string, \<^verbatim>\<open>TypeError\<close> otherwise
  (numbers, booleans and \<^verbatim>\<open>None\<close> are not containers).
\<close>

fun py_in :: "string \<Rightarrow> json \<Rightarrow> error + bool" where
  "py_in k (JObject kvs) = Inr (map_of kvs k \<noteq> None)"
| "py_in k (JArray xs) = Inr (JString k \<in> set xs)"
| "py_in k (JString s) = Inr (contains k s)"
| "py_in k JNull = Inl TypeError"
| "py_in k (JBool b) = Inl TypeError"
| "py_in k (JInt i) = Inl TypeError"
| "py_in k (JFloat r) = Inl TypeError"

text \<open>
  \<^verbatim>\<open>x[key]\<close> for a string literal \<^verbatim>\<open>key\<close>: the value on an object (\<^verbatim>\<open>KeyError\<close> when
  absent), \<^verbatim>\<open>TypeError\<close> on everything else (arrays and strings take integer indices only).
\<close>

fun py_getitem :: "json \<Rightarrow> string \<Rightarrow> error + json" where
  "py_getitem (JObject kvs) k = (case map_of kvs k of None \<Rightarrow> Inl KeyError | Some v \<Rightarrow> Inr v)"
| "py_getitem (JArray xs) k = Inl TypeError"
| "py_getitem (JString s) k = Inl TypeError"
| "py_getitem JNull k = Inl TypeError"
| "py_getitem (JBool b) k = Inl TypeError"
| "py_getitem (JInt i) k = Inl TypeError"
| "py_getitem (JFloat r) k = Inl TypeError"

text \<open>
  \<^verbatim>\<open>for x in data\<close>: the elements of an array, the keys of an object, the one-character
  strings of a string; anything else is not iterable.
\<close>

fun py_iter :: "json \<Rightarrow> error + json list" where
  "py_iter (JArray xs) = Inr xs"
| "py_iter (JObject kvs) = Inr (map (\<lambda>kv. JString (fst kv)) kvs)"
| "py_iter (JString s) = Inr (map (\<lambda>c. JString [c]) s)"
| "py_iter JNull = Inl TypeError"
| "py_iter (JBool b) = Inl TypeError"
| "py_iter (JInt i) = Inl TypeError"
| "py_iter (JFloat r) = Inl TypeError"

text \<open>\<^verbatim>\<open>str(n)\<close> of a Python integer: its decimal digits, with a minus sign when negative.\<close>

definition digit_char :: "nat \<Rightarrow> char" where
  "digit_char d = char_of (48 + d)"

function str_nat :: "nat \<Rightarrow> string" where
  "str_nat n = (if n < 10 then [digit_char n] else str_nat (n div 10) @ [digit_char (n mod 10)])"
  by pat_completeness auto
termination
  by (relation "measure (\<lambda>n. n)") auto

declare str_nat.simps [simp del]

definition py_str :: "int \<Rightarrow> string" where
  "py_str i = (if i < 0 then CHR ''-'' # str_nat (nat (- i)) else str_nat (nat i))"

text \<open>
  Library functions that the client calls and that are not part of the repository are
  parameters of the model: \<^verbatim>\<open>json.loads\<close>, \<^verbatim>\<open>json.dumps\<close>, the builtin \<^verbatim>\<open>int(s, 10)\<close>
  on a string, and \<^verbatim>\<open>urllib.parse.urlparse\<close>. Of its result the client reads \<^verbatim>\<open>netloc\<close>
  and \<^verbatim>\<open>path\<close>; the attribute \<^verbatim>\<open>port\<close>, which the client does not read, is \<^verbatim>\<open>None\<close> when the
  address has no explicit port. Each may raise where the library does. \<^verbatim>\<open>object_attrs\<close> lists the attribute
  names that every instance inherits from \<^verbatim>\<open>object\<close> (\<^verbatim>\<open>__class__\<close>, \<^verbatim>\<open>__dict__\<close>, ...),
  which depend on the interpreter.
\<close>

record parsed_url =
  netloc :: string
  path :: string
  url_port :: "int option"

record pylib =
  json_loads :: "string \<Rightarrow> error + json"
  json_dumps :: "json \<Rightarrow> string"
  int_base10 :: "string \<Rightarrow> error + int"
  urlparse :: "json \<Rightarrow> error + parsed_url"
  object_attrs :: "string list"

text \<open>\<^verbatim>\<open>int(v, 10)\<close>: with an explicit base the argument must be a string.\<close>

fun py_int :: "pylib \<Rightarrow> json \<Rightarrow> error + int" where
  "py_int lib (JString s) = int_base10 lib s"
| "py_int lib JNull = Inl TypeError"
| "py_int lib (JBool b) = Inl TypeError"
| "py_int lib (JInt i) = Inl TypeError"
| "py_int lib (JFloat r) = Inl TypeError"
| "py_int lib (JArray xs) = Inl TypeError"
| "py_int lib (JObject kvs) = Inl TypeError"

section \<open>The bulb: attribute store and typed accessors\<close>

text \<open>
  A directory record \<^verbatim>\<open>info\<close> is read at the keys \<^verbatim>\<open>deviceUuid\<close>, \<^verbatim>\<open>category\<close>,
  \<^verbatim>\<open>typeCode\<close> and \<^verbatim>\<open>attributeList\<close>, and every attribute at \<^verbatim>\<open>name\<close> and \<^verbatim>\<open>value\<close>:
  these dictionaries with fixed keys are records here, with string identifiers. An
  attribute's value is whatever JSON value the server sent (the status handler stores the
  pushed value as it is).
\<close>

record attribute =
  attr_name :: string
  attr_value :: json

record device_info =
  deviceUuid :: string
  category_tag :: string
  typeCode :: string
  attributeList :: "attribute list"

text \<open>
  The observer slot \<^verbatim>\<open>_attribute_update_callback\<close> is written only by
  \<^verbatim>\<open>set_attribute_update_callback\<close>; the constructor does not create it. \<^verbatim>\<open>None\<close> here
  means that the instance has no such attribute; \<^verbatim>\<open>Some PyNone\<close> that it holds Python's
  \<^verbatim>\<open>None\<close>; \<^verbatim>\<open>Some (Callable k)\<close> that it holds the callable \<^verbatim>\<open>k\<close>.
\<close>

datatype callback = PyNone | Callable nat

record bulb =
  b_uuid :: string
  b_category :: string
  b_type_code :: string
  b_attributes :: "attribute list"
  b_attribute_update_callback :: "callback option"

definition set_attribute_update_callback :: "bulb \<Rightarrow> callback \<Rightarrow> bulb" where
  "set_attribute_update_callback b cb = b\<lparr>b_attribute_update_callback := Some cb\<rparr>"

text \<open>
  Every accessor is the same loop: the first attribute with the wanted name decides,
  and the loop falling through gives the default.
\<close>

fun first_attr :: "string \<Rightarrow> attribute list \<Rightarrow> attribute option" where
  "first_attr n [] = None"
| "first_attr n (a # as) = (if attr_name a = n then Some a else first_attr n as)"

definition int_accessor :: "pylib \<Rightarrow> string \<Rightarrow> bulb \<Rightarrow> error + int" where
  "int_accessor lib n b =
     (case first_attr n (b_attributes b) of
        Some a \<Rightarrow> py_int lib (attr_value a)
      | None \<Rightarrow> Inr 0)"

definition bool_accessor :: "string \<Rightarrow> bulb \<Rightarrow> bool" where
  "bool_accessor n b =
     (case first_attr n (b_attributes b) of
        Some a \<Rightarrow> attr_value a = JString ''1''
      | None \<Rightarrow> False)"

definition str_accessor :: "string \<Rightarrow> json \<Rightarrow> bulb \<Rightarrow> json" where
  "str_accessor n dflt b =
     (case first_attr n (b_attributes b) of
        Some a \<Rightarrow> attr_value a
      | None \<Rightarrow> dflt)"

definition brightness :: "pylib \<Rightarrow> bulb \<Rightarrow> error + int" where
  "brightness lib b = int_accessor lib ''brightness'' b"

definition consumption_time :: "pylib \<Rightarrow> bulb \<Rightarrow> error + int" where
  "consumption_time lib b = int_accessor lib ''consumptionTime'' b"

definition rssi :: "pylib \<Rightarrow> bulb \<Rightarrow> error + int" where
  "rssi lib b = int_accessor lib ''deviceRssi'' b"

definition identify_no :: "bulb \<Rightarrow> json" where
  "identify_no b = str_accessor ''identifyNO'' (JString []) b"

definition ip :: "bulb \<Rightarrow> json" where
  "ip b = str_accessor ''ip'' (JString []) b"

definition name :: "bulb \<Rightarrow> json" where
  "name b = str_accessor ''name'' (JString []) b"

definition online :: "bulb \<Rightarrow> bool" where
  "online b = bool_accessor ''online'' b"

definition product_code :: "bulb \<Rightarrow> json" where
  "product_code b = str_accessor ''product_code'' (JString []) b"

definition save_flag :: "bulb \<Rightarrow> bool" where
  "save_flag b = bool_accessor ''save_flag'' b"

definition start_time :: "bulb \<Rightarrow> json" where
  "start_time b = str_accessor ''start_time'' (JString []) b"

definition support_attributes :: "bulb \<Rightarrow> json" where
  "support_attributes b = str_accessor ''support_attributes'' (JString []) b"

definition switch :: "bulb \<Rightarrow> bool" where
  "switch b = bool_accessor ''switch'' b"

definition time_zone :: "bulb \<Rightarrow> json" where
  "time_zone b = str_accessor ''time_zone'' (JString []) b"

definition type_code :: "bulb \<Rightarrow> json" where
  "type_code b = str_accessor ''type_code'' (JString (b_type_code b)) b"

definition version :: "bulb \<Rightarrow> json" where
  "version b = str_accessor ''version'' (JString []) b"

definition uuid :: "bulb \<Rightarrow> string" where
  "uuid b = b_uuid b"

definition category :: "bulb \<Rightarrow> string" where
  "category b = b_category b"

section \<open>The status handler\<close>

text \<open>
  \<^verbatim>\<open>getattr(self, name)\<close> on a bulb. The properties compute their value; \<^verbatim>\<open>uuid\<close> and
  \<^verbatim>\<open>category\<close> read a field, and so do the private names \<^verbatim>\<open>_uuid\<close>, \<^verbatim>\<open>_category\<close>,
  \<^verbatim>\<open>_type_code\<close> and \<^verbatim>\<open>_attributes\<close> (the list of attribute dictionaries). Methods, the
  field \<^verbatim>\<open>_client\<close>, the observer and the attributes inherited from \<^verbatim>\<open>object\<close> give an object
  that is not a JSON value. The private field \<^verbatim>\<open>_attribute_update_callback\<close> exists only
  once it has been assigned. Any other name raises \<^verbatim>\<open>AttributeError\<close>.
\<close>

datatype pyval = Val json | Obj string

definition int_val :: "error + int \<Rightarrow> error + pyval" where
  "int_val r = (case r of Inl e \<Rightarrow> Inl e | Inr i \<Rightarrow> Inr (Val (JInt i)))"

definition bulb_methods :: "string list" where
  "bulb_methods = [''set_attribute_update_callback'', ''toggle'', ''set_brightness'',
     ''_update_status'', ''_attribute_to_property'']"

definition attribute_json :: "attribute \<Rightarrow> json" where
  "attribute_json a = JObject [(''name'', JString (attr_name a)), (''value'', attr_value a)]"

definition bulb_getattr :: "pylib \<Rightarrow> bulb \<Rightarrow> string \<Rightarrow> error + pyval" where
  "bulb_getattr lib b n =
     (if n = ''brightness'' then int_val (brightness lib b)
      else if n = ''consumption_time'' then int_val (consumption_time lib b)
      else if n = ''rssi'' then int_val (rssi lib b)
      else if n = ''identify_no'' then Inr (Val (identify_no b))
      else if n = ''ip'' then Inr (Val (ip b))
      else if n = ''name'' then Inr (Val (name b))
      else if n = ''online'' then Inr (Val (JBool (online b)))
      else if n = ''product_code'' then Inr (Val (product_code b))
      else if n = ''save_flag'' then Inr (Val (JBool (save_flag b)))
      else if n = ''start_time'' then Inr (Val (start_time b))
      else if n = ''support_attributes'' then Inr (Val (support_attributes b))
      else if n = ''switch'' then Inr (Val (JBool (switch b)))
      else if n = ''time_zone'' then Inr (Val (time_zone b))
      else if n = ''type_code'' then Inr (Val (type_code b))
      else if n = ''version'' then Inr (Val (version b))
      else if n = ''uuid'' then Inr (Val (JString (uuid b)))
      else if n = ''category'' then Inr (Val (JString (category b)))
      else if n = ''_uuid'' then Inr (Val (JString (b_uuid b)))
      else if n = ''_category'' then Inr (Val (JString (b_category b)))
      else if n = ''_type_code'' then Inr (Val (JString (b_type_code b)))
      else if n = ''_attributes'' then Inr (Val (JArray (map attribute_json (b_attributes b))))
      else if n \<in> set bulb_methods \<or> n = ''_client'' then Inr (Obj n)
      else if n = ''_attribute_update_callback'' \<and> b_attribute_update_callback b \<noteq> None
        then Inr (Obj n)
      else if n \<in> set (object_attrs lib) then Inr (Obj n)
      else Inl AttributeError)"

text \<open>
  \<^verbatim>\<open>hasattr\<close> calls \<^verbatim>\<open>getattr\<close> and turns an \<^verbatim>\<open>AttributeError\<close> into \<^verbatim>\<open>False\<close>; any
  other exception of a property goes through.
\<close>

definition bulb_hasattr :: "pylib \<Rightarrow> bulb \<Rightarrow> string \<Rightarrow> error + bool" where
  "bulb_hasattr lib b n =
     (case bulb_getattr lib b n of
        Inr v \<Rightarrow> Inr True
      | Inl e \<Rightarrow> (if e = AttributeError then Inr False else Inl e))"

definition attr_map :: "(string \<times> string) list" where
  "attr_map =
     [(''consumptionTime'', ''consumption_time''),
      (''deviceRssi'', ''rssi''),
      (''identifyNO'', ''identify_no''),
      (''productCode'', ''product_code''),
      (''saveFlag'', ''save_flag''),
      (''startTime'', ''start_time''),
      (''supportAttributes'', ''support_attributes''),
      (''timeZone'', ''time_zone''),
      (''typeCode'', ''type_code'')]"

definition attribute_to_property :: "string \<Rightarrow> string" where
  "attribute_to_property a = (case map_of attr_map a of Some p \<Rightarrow> p | None \<Rightarrow> a)"

text \<open>
  A run of the handler gives: the exception that ended it, if any; the bulb as the run
  left it (a mutation made before an exception stays); and the calls made to the
  observer, in order, each with the callable, the property name and the value passed.
\<close>

type_synonym notification = "nat \<times> string \<times> pyval"

type_synonym handled = "error option \<times> bulb \<times> notification list"

text \<open>
  Lines 249 to 256: reading the observer slot raises when it was never assigned; a
  callable is called only when the bulb has the translated name, with the value read
  a second time.
\<close>

definition notify :: "pylib \<Rightarrow> bulb \<Rightarrow> string \<Rightarrow> handled" where
  "notify lib b an =
     (case b_attribute_update_callback b of
        None \<Rightarrow> (Some AttributeError, b, [])
      | Some PyNone \<Rightarrow> (None, b, [])
      | Some (Callable k) \<Rightarrow>
          (let n = attribute_to_property an in
           case bulb_hasattr lib b n of
             Inl e \<Rightarrow> (Some e, b, [])
           | Inr has \<Rightarrow>
               if \<not> has then (None, b, [])
               else (case bulb_getattr lib b n of
                       Inl e \<Rightarrow> (Some e, b, [])
                     | Inr v \<Rightarrow> (None, b, [(k, n, v)]))))"

text \<open>
  Lines 245 to 258, the loop over the attribute list: \<^verbatim>\<open>i\<close> is the position of the
  attribute at the head of the remaining list. The first attribute whose name equals
  \<^verbatim>\<open>status['type']\<close> takes \<^verbatim>\<open>status['value']\<close> (read before the store, so a missing
  value raises with nothing written), the observer is told, and the loop breaks.
\<close>

fun attr_loop :: "pylib \<Rightarrow> bulb \<Rightarrow> json \<Rightarrow> nat \<Rightarrow> attribute list \<Rightarrow> handled" where
  "attr_loop lib b status i [] = (None, b, [])"
| "attr_loop lib b status i (a # as) =
     (case py_getitem status ''type'' of
        Inl e \<Rightarrow> (Some e, b, [])
      | Inr ty \<Rightarrow>
          if JString (attr_name a) = ty then
            (case py_getitem status ''value'' of
               Inl e \<Rightarrow> (Some e, b, [])
             | Inr v \<Rightarrow>
                 notify lib
                   (b\<lparr>b_attributes := (b_attributes b)[i := a\<lparr>attr_value := v\<rparr>]\<rparr>)
                   (attr_name a))
          else attr_loop lib b status (Suc i) as)"

text \<open>
  Lines 239 to 258, one entry of the payload. The two membership tests are joined by
  \<^verbatim>\<open>or\<close>, so the second runs only when the first found the key.
\<close>

definition update_entry :: "pylib \<Rightarrow> bulb \<Rightarrow> json \<Rightarrow> handled" where
  "update_entry lib b status =
     (case py_in ''type'' status of
        Inl e \<Rightarrow> (Some e, b, [])
      | Inr has_type \<Rightarrow>
          if \<not> has_type then (None, b, [])
          else (case py_in ''dn'' status of
                  Inl e \<Rightarrow> (Some e, b, [])
                | Inr has_dn \<Rightarrow>
                    if \<not> has_dn then (None, b, [])
                    else (case py_getitem status ''dn'' of
                            Inl e \<Rightarrow> (Some e, b, [])
                          | Inr dn \<Rightarrow>
                              if dn \<noteq> JString (uuid b) then (None, b, [])
                              else attr_loop lib b status 0 (b_attributes b))))"

text \<open>Line 238, the loop over the entries: an exception ends it.\<close>

fun update_entries :: "pylib \<Rightarrow> bulb \<Rightarrow> json list \<Rightarrow> handled" where
  "update_entries lib b [] = (None, b, [])"
| "update_entries lib b (status # rest) =
     (case update_entry lib b status of
        (Some e, b', ns) \<Rightarrow> (Some e, b', ns)
      | (None, b', ns) \<Rightarrow>
          (case update_entries lib b' rest of (r, b'', ns') \<Rightarrow> (r, b'', ns @ ns')))"

text \<open>
  \<^verbatim>\<open>_update_status\<close>: a payload that \<^verbatim>\<open>json.loads\<close> rejects with \<^verbatim>\<open>ValueError\<close> is
  dropped; no other exception is caught.
\<close>

definition update_status :: "pylib \<Rightarrow> bulb \<Rightarrow> string \<Rightarrow> handled" where
  "update_status lib b message =
     (case json_loads lib message of
        Inl e \<Rightarrow> (if e = ValueError then (None, b, []) else (Some e, b, []))
      | Inr data \<Rightarrow>
          (case py_iter data of
             Inl e \<Rightarrow> (Some e, b, [])
           | Inr entries \<Rightarrow> update_entries lib b entries))"

section \<open>The client\<close>

text \<open>
  The calls that the client makes to \<^verbatim>\<open>requests\<close> and to the paho MQTT client are
  recorded, in order, in the client state. What the outside answers is the environment:
  each answer may depend on the request and on the number of calls made before it.
  \<^item> \<^verbatim>\<open>requests.post\<close> raises, or gives a status code and a body; the body is \<^verbatim>\<open>None\<close>
    when \<^verbatim>\<open>r.json()\<close> raises \<^verbatim>\<open>ValueError\<close>. The body of the device list is taken as
    decoded: the list under \<^verbatim>\<open>deviceList\<close>, or \<^verbatim>\<open>None\<close> when the key is absent.
  \<^item> \<^verbatim>\<open>connect\<close> and \<^verbatim>\<open>reconnect\<close> return or raise.
  \<^item> \<^verbatim>\<open>subscribe\<close> raises or gives a result code (\<^verbatim>\<open>MQTT_ERR_SUCCESS\<close> is 0).
  \<^item> \<^verbatim>\<open>publish\<close> raises, or \<^verbatim>\<open>wait_for_publish\<close> raises or returns.
\<close>

datatype event =
    Http_post string
  | Mqtt_new_client json
  | Mqtt_tls_set_context
  | Mqtt_ws_set_options string json
  | Mqtt_connect string int
  | Mqtt_loop_start
  | Mqtt_loop_stop
  | Mqtt_disconnect
  | Mqtt_reconnect
  | Mqtt_subscribe string
  | Mqtt_publish string string

datatype 'b http_reply = Request_raises error | Reply int "'b option"

datatype publish_result = Publish_raises error | Wait_raises error | Waited

record env =
  http_json :: "nat \<Rightarrow> string \<Rightarrow> json http_reply"
  http_device_list :: "nat \<Rightarrow> (device_info list option) http_reply"
  mqtt_connect_result :: "nat \<Rightarrow> error option"
  mqtt_subscribe_result :: "nat \<Rightarrow> string \<Rightarrow> error + int"
  mqtt_publish_result :: "nat \<Rightarrow> string \<Rightarrow> string \<Rightarrow> publish_result"

definition MQTT_ERR_SUCCESS :: int where
  "MQTT_ERR_SUCCESS = 0"

record server_address =
  host :: string
  port :: int
  ws_path :: string

text \<open>A registered handler is the bound method \<^verbatim>\<open>_update_status\<close> of a bulb.\<close>

datatype handler = Update_status string

text \<open>
  The subscription registry is a Python dictionary: an association list in insertion
  order, without repeated keys. Assigning to a key that exists replaces its value in
  place; a new key goes to the end.
\<close>

fun dict_set :: "'k \<Rightarrow> 'v \<Rightarrow> ('k \<times> 'v) list \<Rightarrow> ('k \<times> 'v) list" where
  "dict_set k v [] = [(k, v)]"
| "dict_set k v (p # ps) = (if fst p = k then (k, v) # ps else p # dict_set k v ps)"

record client =
  c_uuid :: string
  c_username :: string
  c_password :: string
  jsession_id :: json
  mqtt_server :: server_address
  mqtt_client :: "unit option"
  devices :: "bulb list"
  subscribed :: "(string \<times> handler) list"
  calls :: "event list"

text \<open>The constructor; the instance identifier comes from \<^verbatim>\<open>uuid4\<close>.\<close>

definition new_client :: "string \<Rightarrow> string \<Rightarrow> string \<Rightarrow> client" where
  "new_client instance_id username password =
     \<lparr>c_uuid = instance_id, c_username = username, c_password = password,
      jsession_id = JNull,
      mqtt_server = \<lparr>host = ''us-mqtt.cloud.sengled.com'', port = 443, ws_path = ''/mqtt''\<rparr>,
      mqtt_client = None, devices = [], subscribed = [], calls = []\<rparr>"

type_synonym 'a io = "(error + 'a) \<times> client"

definition record_calls :: "event list \<Rightarrow> client \<Rightarrow> client" where
  "record_calls es c = c\<lparr>calls := calls c @ es\<rparr>"

definition url_authen :: string where
  "url_authen = ''https://ucenter.cloud.sengled.com/user/app/customer/v2/AuthenCross.json''"

definition url_session_timeout :: string where
  "url_session_timeout =
     ''https://ucenter.cloud.sengled.com/user/app/customer/isSessionTimeout.json''"

definition url_server_info :: string where
  "url_server_info = ''https://life2.cloud.sengled.com/life2/server/getServerInfo.json''"

definition url_device_list :: string where
  "url_device_list = ''https://life2.cloud.sengled.com/life2/device/list.json''"

definition http_post :: "env \<Rightarrow> string \<Rightarrow> client \<Rightarrow> json http_reply \<times> client" where
  "http_post env url c = (http_json env (length (calls c)) url, record_calls [Http_post url] c)"

subsection \<open>The realtime channel\<close>

definition subscribe_mqtt :: "env \<Rightarrow> client \<Rightarrow> string \<Rightarrow> handler \<Rightarrow> bool io" where
  "subscribe_mqtt env c topic cb =
     (case mqtt_client c of
        None \<Rightarrow> (Inr False, c)
      | Some m \<Rightarrow>
          (let c1 = record_calls [Mqtt_subscribe topic] c in
           case mqtt_subscribe_result env (length (calls c)) topic of
             Inl e \<Rightarrow> (Inl e, c1)
           | Inr rc \<Rightarrow>
               if rc \<noteq> MQTT_ERR_SUCCESS then (Inr False, c1)
               else (Inr True, c1\<lparr>subscribed := dict_set topic cb (subscribed c1)\<rparr>)))"

definition unsubscribe_mqtt :: "client \<Rightarrow> string \<Rightarrow> handler \<Rightarrow> client" where
  "unsubscribe_mqtt c topic cb = c\<lparr>subscribed := filter (\<lambda>kv. fst kv \<noteq> topic) (subscribed c)\<rparr>"

text \<open>
  \<^verbatim>\<open>_publish_mqtt\<close> returns \<^verbatim>\<open>False\<close> without a client and when \<^verbatim>\<open>wait_for_publish\<close> raises
  \<^verbatim>\<open>ValueError\<close>. Otherwise line 522 returns \<^verbatim>\<open>r.is_published\<close> as it is, without calling
  it: the attribute of the message info (in paho a bound method, hence an object that
  counts as true), not the boolean that a call would give.
\<close>

definition publish_mqtt :: "env \<Rightarrow> client \<Rightarrow> string \<Rightarrow> string \<Rightarrow> pyval io" where
  "publish_mqtt env c topic payload =
     (case mqtt_client c of
        None \<Rightarrow> (Inr (Val (JBool False)), c)
      | Some m \<Rightarrow>
          (let c1 = record_calls [Mqtt_publish topic payload] c in
           case mqtt_publish_result env (length (calls c)) topic payload of
             Publish_raises e \<Rightarrow> (Inl e, c1)
           | Wait_raises e \<Rightarrow>
               (if e = ValueError then (Inr (Val (JBool False)), c1) else (Inl e, c1))
           | Waited \<Rightarrow> (Inr (Obj ''is_published''), c1)))"

definition initialize_mqtt :: "env \<Rightarrow> client \<Rightarrow> bool io" where
  "initialize_mqtt env c =
     (if \<not> truthy (jsession_id c) then (Inr False, c)
      else
        (let c1 = record_calls
                    [Mqtt_new_client (jsession_id c), Mqtt_tls_set_context,
                     Mqtt_ws_set_options (ws_path (mqtt_server c)) (jsession_id c),
                     Mqtt_connect (host (mqtt_server c)) (port (mqtt_server c))]
                    (c\<lparr>mqtt_client := Some ()\<rparr>)
         in case mqtt_connect_result env (length (calls c1) - 1) of
              Some e \<Rightarrow> (Inl e, c1)
            | None \<Rightarrow> (Inr True, record_calls [Mqtt_loop_start] c1)))"

text \<open>
  Lines 501 and 502: the loop runs over the keys the registry had when it started and
  reads the handler of each from the registry as it is then.
\<close>

fun resubscribe :: "env \<Rightarrow> client \<Rightarrow> string list \<Rightarrow> unit io" where
  "resubscribe env c [] = (Inr (), c)"
| "resubscribe env c (topic # topics) =
     (case map_of (subscribed c) topic of
        None \<Rightarrow> (Inl KeyError, c)
      | Some cb \<Rightarrow>
          (case subscribe_mqtt env c topic cb of
             (Inl e, c') \<Rightarrow> (Inl e, c')
           | (Inr ok, c') \<Rightarrow> resubscribe env c' topics))"

definition reinitialize_mqtt :: "env \<Rightarrow> client \<Rightarrow> bool io" where
  "reinitialize_mqtt env c =
     (if mqtt_client c = None \<or> \<not> truthy (jsession_id c) then (Inr False, c)
      else
        (let c1 = record_calls
                    [Mqtt_loop_stop, Mqtt_disconnect,
                     Mqtt_ws_set_options (ws_path (mqtt_server c)) (jsession_id c),
                     Mqtt_reconnect] c
         in case mqtt_connect_result env (length (calls c1) - 1) of
              Some e \<Rightarrow> (Inl e, c1)
            | None \<Rightarrow>
                (let c2 = record_calls [Mqtt_loop_start] c1 in
                 case resubscribe env c2 (map fst (subscribed c2)) of
                   (Inl e, c3) \<Rightarrow> (Inl e, c3)
                 | (Inr u, c3) \<Rightarrow> (Inr True, c3))))"

subsection \<open>Bulb construction and commands\<close>

definition status_topic :: "string \<Rightarrow> string" where
  "status_topic u = ''wifielement/'' @ u @ ''/status''"

definition update_topic :: "string \<Rightarrow> string" where
  "update_topic u = ''wifielement/'' @ u @ ''/update''"

text \<open>
  \<^verbatim>\<open>SengledBulb.__init__\<close>: the fields are taken from the directory record and the status
  topic is subscribed; the result of the subscription is not looked at.
\<close>

definition new_bulb :: "env \<Rightarrow> client \<Rightarrow> device_info \<Rightarrow> bulb io" where
  "new_bulb env c info =
     (let b = \<lparr>b_uuid = deviceUuid info, b_category = category_tag info,
               b_type_code = typeCode info, b_attributes = attributeList info,
               b_attribute_update_callback = None\<rparr>
      in case subscribe_mqtt env c (status_topic (uuid b)) (Update_status (uuid b)) of
           (Inl e, c') \<Rightarrow> (Inl e, c')
         | (Inr ok, c') \<Rightarrow> (Inr b, c'))"

text \<open>
  The command object of \<^verbatim>\<open>toggle\<close> and \<^verbatim>\<open>set_brightness\<close>; \<^verbatim>\<open>time_ms\<close> is the value of
  \<^verbatim>\<open>int(time.time() * 1000)\<close> at the call.
\<close>

definition command :: "string \<Rightarrow> string \<Rightarrow> string \<Rightarrow> int \<Rightarrow> json" where
  "command dn ty v time_ms =
     JObject [(''dn'', JString dn), (''type'', JString ty), (''value'', JString v),
              (''time'', JInt time_ms)]"

definition toggle :: "pylib \<Rightarrow> env \<Rightarrow> int \<Rightarrow> client \<Rightarrow> bulb \<Rightarrow> bool \<Rightarrow> pyval io" where
  "toggle lib env time_ms c b on =
     publish_mqtt env c (update_topic (uuid b))
       (json_dumps lib (command (uuid b) ''switch'' (if on then ''1'' else ''0'') time_ms))"

definition set_brightness :: "pylib \<Rightarrow> env \<Rightarrow> int \<Rightarrow> client \<Rightarrow> bulb \<Rightarrow> int \<Rightarrow> pyval io" where
  "set_brightness lib env time_ms c b level =
     (let level = max (min level 100) 0 in
      publish_mqtt env c (update_topic (uuid b))
        (json_dumps lib (command (uuid b) ''brightness'' (py_str level) time_ms)))"

subsection \<open>Session, endpoint and directory\<close>

definition is_session_timeout :: "env \<Rightarrow> client \<Rightarrow> bool io" where
  "is_session_timeout env c =
     (if \<not> truthy (jsession_id c) then (Inr True, c)
      else
        (case http_post env url_session_timeout c of
           (Request_raises e, c1) \<Rightarrow> (Inl e, c1)
         | (Reply code body, c1) \<Rightarrow>
             if code \<noteq> 200 then (Inr True, c1)
             else (case body of
                     None \<Rightarrow> (Inl ValueError, c1)
                   | Some data \<Rightarrow>
                       (case py_in ''info'' data of
                          Inl e \<Rightarrow> (Inl e, c1)
                        | Inr has \<Rightarrow>
                            if \<not> has then (Inr True, c1)
                            else (case py_getitem data ''info'' of
                                    Inl e \<Rightarrow> (Inl e, c1)
                                  | Inr v \<Rightarrow>
                                      if v \<noteq> JString ''OK'' then (Inr True, c1)
                                      else (Inr False, c1))))))"

text \<open>\<^verbatim>\<open>s.split(c)\<close> for a one-character separator.\<close>

fun split_on :: "char \<Rightarrow> string \<Rightarrow> string list" where
  "split_on c [] = [[]]"
| "split_on c (x # xs) =
     (if x = c then [] # split_on c xs
      else (case split_on c xs of
              [] \<Rightarrow> [[x]]
            | w # ws \<Rightarrow> (x # w) # ws))"

text \<open>\<^verbatim>\<open>xs[1]\<close>.\<close>

fun second :: "'a list \<Rightarrow> error + 'a" where
  "second (x # y # ys) = Inr y"
| "second xs = Inl IndexError"

fun first :: "'a list \<Rightarrow> error + 'a" where
  "first (x # xs) = Inr x"
| "first [] = Inl IndexError"

text \<open>
  Lines 401 to 409. With a colon in the network location the three fields are written
  one after the other, so an exception of \<^verbatim>\<open>int\<close> leaves the host already replaced.
\<close>

definition set_server :: "pylib \<Rightarrow> parsed_url \<Rightarrow> client \<Rightarrow> unit io" where
  "set_server lib url c =
     (if CHR '':'' \<in> set (netloc url) then
        (case first (split_on CHR '':'' (netloc url)) of
           Inl e \<Rightarrow> (Inl e, c)
         | Inr h \<Rightarrow>
             (let c1 = c\<lparr>mqtt_server := (mqtt_server c)\<lparr>host := h\<rparr>\<rparr> in
              case second (split_on CHR '':'' (netloc url)) of
                Inl e \<Rightarrow> (Inl e, c1)
              | Inr p \<Rightarrow>
                  (case int_base10 lib p of
                     Inl e \<Rightarrow> (Inl e, c1)
                   | Inr n \<Rightarrow>
                       (Inr (), c1\<lparr>mqtt_server :=
                                      (mqtt_server c1)\<lparr>port := n, ws_path := path url\<rparr>\<rparr>))))
      else
        (Inr (), c\<lparr>mqtt_server :=
                     \<lparr>host = netloc url, port = 443, ws_path = path url\<rparr>\<rparr>))"

definition get_server_info :: "pylib \<Rightarrow> env \<Rightarrow> client \<Rightarrow> unit io" where
  "get_server_info lib env c =
     (if \<not> truthy (jsession_id c) then (Inr (), c)
      else
        (case http_post env url_server_info c of
           (Request_raises e, c1) \<Rightarrow> (Inl e, c1)
         | (Reply code body, c1) \<Rightarrow>
             if code \<noteq> 200 then (Inr (), c1)
             else (case body of
                     None \<Rightarrow> (Inl ValueError, c1)
                   | Some data \<Rightarrow>
                       (case py_in ''inceptionAddr'' data of
                          Inl e \<Rightarrow> (Inl e, c1)
                        | Inr has \<Rightarrow>
                            if \<not> has then (Inr (), c1)
                            else (case py_getitem data ''inceptionAddr'' of
                                    Inl e \<Rightarrow> (Inl e, c1)
                                  | Inr addr \<Rightarrow>
                                      if \<not> truthy addr then (Inr (), c1)
                                      else (case urlparse lib addr of
                                              Inl e \<Rightarrow> (Inl e, c1)
                                            | Inr url \<Rightarrow> set_server lib url c1))))))"

text \<open>Lines 441 to 450: a record whose identifier no cached bulb has gets a new bulb.\<close>

fun add_devices :: "env \<Rightarrow> client \<Rightarrow> device_info list \<Rightarrow> unit io" where
  "add_devices env c [] = (Inr (), c)"
| "add_devices env c (d # ds) =
     (if deviceUuid d \<in> set (map uuid (devices c)) then add_devices env c ds
      else (case new_bulb env c d of
              (Inl e, c') \<Rightarrow> (Inl e, c')
            | (Inr b, c') \<Rightarrow> add_devices env (c'\<lparr>devices := devices c' @ [b]\<rparr>) ds))"

definition get_devices :: "env \<Rightarrow> client \<Rightarrow> bool \<Rightarrow> (bulb list) io" where
  "get_devices env c force_update =
     (if \<not> truthy (jsession_id c) then (Inr (devices c), c)
      else if length (devices c) > 0 \<and> \<not> force_update then (Inr (devices c), c)
      else
        (let c1 = record_calls [Http_post url_device_list] c in
         case http_device_list env (length (calls c)) of
           Request_raises e \<Rightarrow> (Inl e, c1)
         | Reply code body \<Rightarrow>
             if code \<noteq> 200 then (Inr (devices c1), c1)
             else (case body of
                     None \<Rightarrow> (Inl ValueError, c1)
                   | Some data \<Rightarrow>
                       (case data of
                          None \<Rightarrow> (Inr (devices c1), c1)
                        | Some ds \<Rightarrow>
                            if ds = [] then (Inr (devices c1), c1)
                            else (case add_devices env c1 ds of
                                    (Inl e, c2) \<Rightarrow> (Inl e, c2)
                                  | (Inr u, c2) \<Rightarrow> (Inr (devices c2), c2))))))"

text \<open>
  \<^verbatim>\<open>login\<close> returns \<^verbatim>\<open>True\<close>, \<^verbatim>\<open>False\<close> or, by the bare \<^verbatim>\<open>return\<close> of line 308,
  \<^verbatim>\<open>None\<close>. Lines 310 to 343 are \<^verbatim>\<open>authenticate\<close>.
\<close>

definition authenticate :: "pylib \<Rightarrow> env \<Rightarrow> client \<Rightarrow> (bool option) io" where
  "authenticate lib env c =
     (case http_post env url_authen c of
        (Request_raises e, c1) \<Rightarrow> (Inl e, c1)
      | (Reply code body, c1) \<Rightarrow>
          if code \<noteq> 200 then (Inr (Some False), c1)
          else (case body of
                  None \<Rightarrow> (Inl ValueError, c1)
                | Some data \<Rightarrow>
                    (case py_in ''jsessionId'' data of
                       Inl e \<Rightarrow> (Inl e, c1)
                     | Inr has \<Rightarrow>
                         if \<not> has then (Inr (Some False), c1)
                         else (case py_getitem data ''jsessionId'' of
                                 Inl e \<Rightarrow> (Inl e, c1)
                               | Inr sid \<Rightarrow>
                                   if \<not> truthy sid then (Inr (Some False), c1)
                                   else
                                     (case get_server_info lib env (c1\<lparr>jsession_id := sid\<rparr>) of
                                        (Inl e, c2) \<Rightarrow> (Inl e, c2)
                                      | (Inr u, c2) \<Rightarrow>
                                          (case (if mqtt_client c2 = None
                                                 then initialize_mqtt env c2
                                                 else reinitialize_mqtt env c2) of
                                             (Inl e, c3) \<Rightarrow> (Inl e, c3)
                                           | (Inr ok, c3) \<Rightarrow>
                                               (case get_devices env c3 True of
                                                  (Inl e, c4) \<Rightarrow> (Inl e, c4)
                                                | (Inr ds, c4) \<Rightarrow> (Inr (Some True), c4))))))))"

definition login :: "pylib \<Rightarrow> env \<Rightarrow> client \<Rightarrow> (bool option) io" where
  "login lib env c =
     (if truthy (jsession_id c) then
        (case is_session_timeout env c of
           (Inl e, c1) \<Rightarrow> (Inl e, c1)
         | (Inr timed_out, c1) \<Rightarrow>
             if \<not> timed_out then (Inr None, c1) else authenticate lib env c1)
      else authenticate lib env c)"

subsection \<open>Sequences of calls\<close>

text \<open>\<^verbatim>\<open>n\<close> calls of \<^verbatim>\<open>_reinitialize_mqtt\<close> in a row, each on the state the last one left.\<close>

fun reconnects :: "env \<Rightarrow> client \<Rightarrow> nat \<Rightarrow> client" where
  "reconnects env c 0 = c"
| "reconnects env c (Suc n) = reconnects env (snd (reinitialize_mqtt env c)) n"

text \<open>
  Calls of \<^verbatim>\<open>get_devices\<close> in a row, one for each \<^verbatim>\<open>force_update\<close> flag of the list, each
  on the state the last one left (also when it ended with an exception).
\<close>

fun refreshes :: "env \<Rightarrow> client \<Rightarrow> bool list \<Rightarrow> client" where
  "refreshes env c [] = c"
| "refreshes env c (force_update # rest) = refreshes env (snd (get_devices env c force_update)) rest"


section \<open>Example states\<close>

text \<open>
  A bulb, a library, an environment and a connected client on which the properties
  below are evaluated. The example library decodes the four payloads listed and rejects
  every other text.
\<close>

definition example_bulb :: bulb where
  "example_bulb =
     \<lparr>b_uuid = ''B1'', b_category = ''wifielement'', b_type_code = ''wifia19-L'',
      b_attributes =
        [\<lparr>attr_name = ''switch'', attr_value = JString ''1''\<rparr>,
         \<lparr>attr_name = ''brightness'', attr_value = JString ''40''\<rparr>],
      b_attribute_update_callback = None\<rparr>"

definition payload_missing_value :: string where
  "payload_missing_value = ''[{\"dn\": \"B1\", \"type\": \"switch\"}]''"

definition payload_switch_off :: string where
  "payload_switch_off = ''[{\"dn\": \"B1\", \"type\": \"switch\", \"value\": \"0\"}]''"

definition payload_foreign :: string where
  "payload_foreign =
     ''[{\"dn\": \"B2\", \"type\": \"switch\", \"value\": \"0\"}, {\"dn\": \"B1\", \"type\": \"colour\", \"value\": \"red\"}]''"

definition payload_number :: string where
  "payload_number = ''5''"

definition entry_missing_value :: json where
  "entry_missing_value = JObject [(''dn'', JString ''B1''), (''type'', JString ''switch'')]"

definition entry_switch_off :: json where
  "entry_switch_off =
     JObject [(''dn'', JString ''B1''), (''type'', JString ''switch''), (''value'', JString ''0'')]"

definition entry_other_device :: json where
  "entry_other_device =
     JObject [(''dn'', JString ''B2''), (''type'', JString ''switch''), (''value'', JString ''0'')]"

definition entry_unknown_name :: json where
  "entry_unknown_name =
     JObject [(''dn'', JString ''B1''), (''type'', JString ''colour''), (''value'', JString ''red'')]"

definition example_payloads :: "(string \<times> json) list" where
  "example_payloads =
     [(payload_missing_value, JArray [entry_missing_value]),
      (payload_switch_off, JArray [entry_switch_off]),
      (payload_foreign, JArray [entry_other_device, entry_unknown_name]),
      (payload_number, JInt 5)]"

definition example_lib :: pylib where
  "example_lib =
     \<lparr>json_loads = (\<lambda>s. case map_of example_payloads s of
                            Some j \<Rightarrow> Inr j
                          | None \<Rightarrow> Inl ValueError),
      json_dumps = (\<lambda>j. ''{}''),
      int_base10 = (\<lambda>s. if s = ''40'' then Inr 40 else Inl ValueError),
      urlparse = (\<lambda>j. if j = JString ''wss://eu-mqtt.cloud.sengled.com/mqtt''
                        then Inr \<lparr>netloc = ''eu-mqtt.cloud.sengled.com'', path = ''/mqtt'',
                                  url_port = None\<rparr>
                        else Inl ValueError),
      object_attrs = [''__class__'', ''__dict__'']\<rparr>"

definition example_devices :: "device_info list" where
  "example_devices =
     [\<lparr>deviceUuid = ''B1'', category_tag = ''wifielement'', typeCode = ''wifia19-L'',
       attributeList = [\<lparr>attr_name = ''switch'', attr_value = JString ''1''\<rparr>]\<rparr>,
      \<lparr>deviceUuid = ''B1'', category_tag = ''wifielement'', typeCode = ''wifia19-L'',
       attributeList = [\<lparr>attr_name = ''switch'', attr_value = JString ''0''\<rparr>]\<rparr>]"

definition example_env :: env where
  "example_env =
     \<lparr>http_json =
        (\<lambda>n url.
           if url = url_session_timeout
             then Reply 200 (Some (JObject [(''info'', JString ''OK'')]))
           else if url = url_server_info
             then Reply 200 (Some (JObject [(''inceptionAddr'',
                                            JString ''wss://eu-mqtt.cloud.sengled.com/mqtt'')]))
           else Request_raises OSError),
      http_device_list = (\<lambda>n. Reply 200 (Some (Some example_devices))),
      mqtt_connect_result = (\<lambda>n. None),
      mqtt_subscribe_result = (\<lambda>n topic. Inr (if topic = ''wifielement/B2/status'' then 1 else 0)),
      mqtt_publish_result = (\<lambda>n topic payload. Waited)\<rparr>"

definition failing_env :: env where
  "failing_env =
     \<lparr>http_json = (\<lambda>n url. Reply 500 None),
      http_device_list = (\<lambda>n. Reply 500 None),
      mqtt_connect_result = (\<lambda>n. Some OSError),
      mqtt_subscribe_result = (\<lambda>n topic. Inr 1),
      mqtt_publish_result = (\<lambda>n topic payload. Wait_raises ValueError)\<rparr>"



definition connected_client :: client where
  "connected_client =
     (new_client ''0123456789abcdef'' ''user'' ''secret'')
       \<lparr>jsession_id := JString ''S1'', mqtt_client := Some (),
        subscribed := [(''wifielement/B1/status'', Update_status ''B1'')]\<rparr>"

section \<open>Properties\<close>

lemma first_attr_None: "(first_attr n as = None) = (n \<notin> attr_name ` set as)"
  by (induction as) auto

lemma py_str_values:
  "py_str 0 = ''0''" "py_str 55 = ''55''" "py_str 100 = ''100''"
  by code_simp+

text \<open>
  C10. Subscribing is atomic with respect to the registry. Without an MQTT client the
  call returns \<^verbatim>\<open>False\<close> and changes nothing; when the broker answers with a result code
  other than \<^verbatim>\<open>MQTT_ERR_SUCCESS\<close> the call returns \<^verbatim>\<open>False\<close> and the registry is as before;
  whenever the call does not return \<^verbatim>\<open>True\<close> (an exception of the library included) the
  registry is as before; and a registry that changed means that the request succeeded and
  the call returned \<^verbatim>\<open>True\<close>.
\<close>

theorem subscribe_mqtt_atomic:
  "(mqtt_client c = None \<longrightarrow> subscribe_mqtt env c topic cb = (Inr False, c))
   \<and> (\<forall>rc. mqtt_client c \<noteq> None \<and> mqtt_subscribe_result env (length (calls c)) topic = Inr rc
          \<and> rc \<noteq> MQTT_ERR_SUCCESS
        \<longrightarrow> fst (subscribe_mqtt env c topic cb) = Inr False
            \<and> subscribed (snd (subscribe_mqtt env c topic cb)) = subscribed c)
   \<and> (fst (subscribe_mqtt env c topic cb) \<noteq> Inr True
        \<longrightarrow> subscribed (snd (subscribe_mqtt env c topic cb)) = subscribed c)
   \<and> (subscribed (snd (subscribe_mqtt env c topic cb)) \<noteq> subscribed c
        \<longrightarrow> mqtt_client c \<noteq> None
            \<and> mqtt_subscribe_result env (length (calls c)) topic = Inr MQTT_ERR_SUCCESS
            \<and> fst (subscribe_mqtt env c topic cb) = Inr True)"
  by (auto simp: subscribe_mqtt_def record_calls_def Let_def split: option.splits sum.splits)

theorem subscribe_mqtt_atomic_witness:
  "mqtt_client connected_client \<noteq> None
   \<and> mqtt_subscribe_result example_env (length (calls connected_client)) ''wifielement/B2/status'' = Inr 1
   \<and> (1::int) \<noteq> MQTT_ERR_SUCCESS
   \<and> fst (subscribe_mqtt example_env connected_client ''wifielement/B2/status'' (Update_status ''B2''))
       = Inr False
   \<and> subscribed (snd (subscribe_mqtt example_env connected_client ''wifielement/B2/status''
                        (Update_status ''B2'')))
       = [(''wifielement/B1/status'', Update_status ''B1'')]
   \<and> mqtt_client (new_client ''0123456789abcdef'' ''user'' ''secret'') = None
   \<and> subscribe_mqtt example_env (new_client ''0123456789abcdef'' ''user'' ''secret'')
         ''wifielement/B2/status'' (Update_status ''B2'')
       = (Inr False, new_client ''0123456789abcdef'' ''user'' ''secret'')"
proof -
  have a: "mqtt_client connected_client \<noteq> None"
    by (simp add: connected_client_def)
  have b: "mqtt_subscribe_result example_env (length (calls connected_client))
             ''wifielement/B2/status'' = Inr 1"
    by (simp add: example_env_def)
  have c: "(1::int) \<noteq> MQTT_ERR_SUCCESS"
    by (simp add: MQTT_ERR_SUCCESS_def)
  have d: "subscribed connected_client = [(''wifielement/B1/status'', Update_status ''B1'')]"
    by (simp add: connected_client_def)
  have e: "mqtt_client (new_client ''0123456789abcdef'' ''user'' ''secret'') = None"
    by (simp add: new_client_def)
  note t1 = subscribe_mqtt_atomic [of connected_client example_env "''wifielement/B2/status''"
              "Update_status ''B2''"]
  note t2 = subscribe_mqtt_atomic [of "new_client ''0123456789abcdef'' ''user'' ''secret''"
              example_env "''wifielement/B2/status''" "Update_status ''B2''"]
  from t1 a b c have "fst (subscribe_mqtt example_env connected_client ''wifielement/B2/status''
        (Update_status ''B2'')) = Inr False
     \<and> subscribed (snd (subscribe_mqtt example_env connected_client ''wifielement/B2/status''
        (Update_status ''B2''))) = subscribed connected_client"
    by blast
  moreover from t2 e have "subscribe_mqtt example_env (new_client ''0123456789abcdef'' ''user'' ''secret'')
         ''wifielement/B2/status'' (Update_status ''B2'')
       = (Inr False, new_client ''0123456789abcdef'' ''user'' ''secret'')"
    by blast
  ultimately show ?thesis using a b c d e by simp
qed

lemma accessor_absent:
  "n \<notin> attr_name ` set (b_attributes b) \<Longrightarrow> int_accessor lib n b = Inr 0"
  "n \<notin> attr_name ` set (b_attributes b) \<Longrightarrow> \<not> bool_accessor n b"
  "n \<notin> attr_name ` set (b_attributes b) \<Longrightarrow> str_accessor n d b = d"
  using first_attr_None [of n "b_attributes b"]
  by (simp_all add: int_accessor_def bool_accessor_def str_accessor_def)

lemma bool_accessor_iff:
  "bool_accessor n b = (\<exists>a. first_attr n (b_attributes b) = Some a \<and> attr_value a = JString ''1'')"
  by (auto simp: bool_accessor_def split: option.splits)

text \<open>
  C4, as stated, fails for \<^verbatim>\<open>type_code\<close>: on a bulb without an attribute of that name the
  accessor gives the type code of the directory record (line 164), not the empty string.
\<close>

theorem type_code_default_counterexample:
  "''type_code'' \<notin> attr_name ` set (b_attributes example_bulb)
   \<and> type_code example_bulb = JString ''wifia19-L''
   \<and> type_code example_bulb \<noteq> JString ''''"
  by (simp add: example_bulb_def type_code_def str_accessor_def)

text \<open>
  C4, amended. For an attribute name absent from the attribute list: the integer
  accessors \<^verbatim>\<open>brightness\<close>, \<^verbatim>\<open>consumption_time\<close> and \<^verbatim>\<open>rssi\<close> return 0 without failing;
  the boolean accessors \<^verbatim>\<open>online\<close>, \<^verbatim>\<open>save_flag\<close> and \<^verbatim>\<open>switch\<close> return false; the string
  accessors \<^verbatim>\<open>identify_no\<close>, \<^verbatim>\<open>ip\<close>, \<^verbatim>\<open>name\<close>, \<^verbatim>\<open>product_code\<close>, \<^verbatim>\<open>start_time\<close>,
  \<^verbatim>\<open>support_attributes\<close>, \<^verbatim>\<open>time_zone\<close> and \<^verbatim>\<open>version\<close> return the empty string; and
  \<^verbatim>\<open>type_code\<close> returns the type code of the directory record. A boolean accessor is
  true exactly when the first attribute of its name holds the string \<^verbatim>\<open>1\<close>.
\<close>

theorem accessor_defaults:
  "(''brightness'' \<notin> attr_name ` set (b_attributes b) \<longrightarrow> brightness lib b = Inr 0)
   \<and> (''consumptionTime'' \<notin> attr_name ` set (b_attributes b) \<longrightarrow> consumption_time lib b = Inr 0)
   \<and> (''deviceRssi'' \<notin> attr_name ` set (b_attributes b) \<longrightarrow> rssi lib b = Inr 0)
   \<and> (''online'' \<notin> attr_name ` set (b_attributes b) \<longrightarrow> \<not> online b)
   \<and> (''save_flag'' \<notin> attr_name ` set (b_attributes b) \<longrightarrow> \<not> save_flag b)
   \<and> (''switch'' \<notin> attr_name ` set (b_attributes b) \<longrightarrow> \<not> switch b)
   \<and> (''identifyNO'' \<notin> attr_name ` set (b_attributes b) \<longrightarrow> identify_no b = JString '''')
   \<and> (''ip'' \<notin> attr_name ` set (b_attributes b) \<longrightarrow> ip b = JString '''')
   \<and> (''name'' \<notin> attr_name ` set (b_attributes b) \<longrightarrow> name b = JString '''')
   \<and> (''product_code'' \<notin> attr_name ` set (b_attributes b) \<longrightarrow> product_code b = JString '''')
   \<and> (''start_time'' \<notin> attr_name ` set (b_attributes b) \<longrightarrow> start_time b = JString '''')
   \<and> (''support_attributes'' \<notin> attr_name ` set (b_attributes b)
        \<longrightarrow> support_attributes b = JString '''')
   \<and> (''time_zone'' \<notin> attr_name ` set (b_attributes b) \<longrightarrow> time_zone b = JString '''')
   \<and> (''version'' \<notin> attr_name ` set (b_attributes b) \<longrightarrow> version b = JString '''')
   \<and> (''type_code'' \<notin> attr_name ` set (b_attributes b)
        \<longrightarrow> type_code b = JString (b_type_code b))
   \<and> online b = (\<exists>a. first_attr ''online'' (b_attributes b) = Some a
                      \<and> attr_value a = JString ''1'')
   \<and> save_flag b = (\<exists>a. first_attr ''save_flag'' (b_attributes b) = Some a
                      \<and> attr_value a = JString ''1'')
   \<and> switch b = (\<exists>a. first_attr ''switch'' (b_attributes b) = Some a
                      \<and> attr_value a = JString ''1'')"
  unfolding brightness_def consumption_time_def rssi_def online_def save_flag_def switch_def
    identify_no_def ip_def name_def product_code_def start_time_def support_attributes_def
    time_zone_def version_def type_code_def
  using accessor_absent [of _ b] bool_accessor_iff [of _ b] by simp

theorem accessor_defaults_witness:
  "''brightness'' \<in> attr_name ` set (b_attributes example_bulb)
   \<and> ''deviceRssi'' \<notin> attr_name ` set (b_attributes example_bulb)
   \<and> rssi example_lib example_bulb = Inr 0
   \<and> ''online'' \<notin> attr_name ` set (b_attributes example_bulb)
   \<and> \<not> online example_bulb
   \<and> ''name'' \<notin> attr_name ` set (b_attributes example_bulb)
   \<and> name example_bulb = JString ''''
   \<and> ''type_code'' \<notin> attr_name ` set (b_attributes example_bulb)
   \<and> type_code example_bulb = JString ''wifia19-L''
   \<and> first_attr ''switch'' (b_attributes example_bulb)
       = Some \<lparr>attr_name = ''switch'', attr_value = JString ''1''\<rparr>
   \<and> switch example_bulb"
proof -
  have names: "attr_name ` set (b_attributes example_bulb) = {''switch'', ''brightness''}"
    by (simp add: example_bulb_def)
  have sw: "first_attr ''switch'' (b_attributes example_bulb)
       = Some \<lparr>attr_name = ''switch'', attr_value = JString ''1''\<rparr>"
    by (simp add: example_bulb_def)
  have tc: "b_type_code example_bulb = ''wifia19-L''"
    by (simp add: example_bulb_def)
  show ?thesis
    using accessor_defaults [of example_bulb example_lib] names sw tc by simp
qed

lemma publish_mqtt_calls:
  "calls (snd (publish_mqtt env c topic payload)) =
     calls c @ (case mqtt_client c of None \<Rightarrow> [] | Some m \<Rightarrow> [Mqtt_publish topic payload])"
  by (simp add: publish_mqtt_def record_calls_def Let_def
           split: option.splits publish_result.splits)

text \<open>
  C3. \<^verbatim>\<open>set_brightness(level)\<close> hands to the channel one command on the bulb's update
  topic whose \<^verbatim>\<open>value\<close> field is the decimal string of the level clamped to the range 0 to
  100 (the only call it makes, and none without an MQTT client); the levels -10, 0, 55,
  100 and 150 give the values 0, 0, 55, 100 and 100.
\<close>

theorem set_brightness_clamps:
  "calls (snd (set_brightness lib env time_ms c b level)) =
     calls c @
     (case mqtt_client c of
        None \<Rightarrow> []
      | Some m \<Rightarrow>
          [Mqtt_publish (update_topic (uuid b))
             (json_dumps lib
                (command (uuid b) ''brightness'' (py_str (max 0 (min 100 level))) time_ms))])
   \<and> py_getitem (command (uuid b) ''brightness'' (py_str (max 0 (min 100 level))) time_ms) ''value''
       = Inr (JString (py_str (max 0 (min 100 level))))
   \<and> 0 \<le> max 0 (min 100 level) \<and> max 0 (min 100 level) \<le> 100
   \<and> (level \<in> {-10, 0} \<longrightarrow> py_str (max 0 (min 100 level)) = ''0'')
   \<and> (level = 55 \<longrightarrow> py_str (max 0 (min 100 level)) = ''55'')
   \<and> (level \<in> {100, 150} \<longrightarrow> py_str (max 0 (min 100 level)) = ''100'')"
proof -
  have "max (min level 100) 0 = max 0 (min 100 level)"
    by (simp add: max.commute min.commute)
  then have "calls (snd (set_brightness lib env time_ms c b level)) =
     calls c @
     (case mqtt_client c of
        None \<Rightarrow> []
      | Some m \<Rightarrow>
          [Mqtt_publish (update_topic (uuid b))
             (json_dumps lib
                (command (uuid b) ''brightness'' (py_str (max 0 (min 100 level))) time_ms))])"
    by (simp add: set_brightness_def publish_mqtt_calls Let_def)
  moreover have "py_getitem (command (uuid b) ''brightness'' (py_str (max 0 (min 100 level))) time_ms) ''value''
       = Inr (JString (py_str (max 0 (min 100 level))))"
    by (simp add: command_def)
  moreover have "level \<in> {-10, 0} \<longrightarrow> py_str (max 0 (min 100 level)) = ''0''"
    using py_str_values(1) by auto
  moreover have "level = 55 \<longrightarrow> py_str (max 0 (min 100 level)) = ''55''"
    using py_str_values(2) by auto
  moreover have "level \<in> {100, 150} \<longrightarrow> py_str (max 0 (min 100 level)) = ''100''"
    using py_str_values(3) by auto
  ultimately show ?thesis by simp
qed

theorem set_brightness_clamps_witness:
  "calls (snd (set_brightness example_lib example_env 1700000000000 connected_client
                 example_bulb 150))
     = [Mqtt_publish ''wifielement/B1/update''
          (json_dumps example_lib (command ''B1'' ''brightness'' ''100'' 1700000000000))]
   \<and> calls (snd (set_brightness example_lib example_env 1700000000000 connected_client
                 example_bulb (-10)))
     = [Mqtt_publish ''wifielement/B1/update''
          (json_dumps example_lib (command ''B1'' ''brightness'' ''0'' 1700000000000))]
   \<and> calls (snd (set_brightness example_lib example_env 1700000000000 connected_client
                 example_bulb 55))
     = [Mqtt_publish ''wifielement/B1/update''
          (json_dumps example_lib (command ''B1'' ''brightness'' ''55'' 1700000000000))]"
proof -
  have c: "calls connected_client = []" "mqtt_client connected_client = Some ()"
    by (simp_all add: connected_client_def new_client_def)
  have u: "update_topic (uuid example_bulb) = ''wifielement/B1/update''" "uuid example_bulb = ''B1''"
    by (simp_all add: update_topic_def uuid_def example_bulb_def)
  show ?thesis
    using set_brightness_clamps [of example_lib example_env 1700000000000 connected_client
            example_bulb 150]
          set_brightness_clamps [of example_lib example_env 1700000000000 connected_client
            example_bulb "-10"]
          set_brightness_clamps [of example_lib example_env 1700000000000 connected_client
            example_bulb 55]
          c u
    by simp
qed

lemma attr_loop_no_match:
  "py_getitem status ''type'' = Inr ty \<Longrightarrow> \<forall>a\<in>set as. JString (attr_name a) \<noteq> ty
   \<Longrightarrow> attr_loop lib b status i as = (None, b, [])"
  by (induction as arbitrary: i) auto

lemma update_entry_other_device:
  assumes "py_getitem status ''dn'' = Inr dn" and "dn \<noteq> JString (uuid b)"
  shows "update_entry lib b status = (None, b, [])"
proof -
  from assms(1) obtain kvs where s: "status = JObject kvs"
    by (cases status) auto
  with assms show ?thesis
    by (auto simp: update_entry_def split: option.splits)
qed

lemma update_entry_unknown_name:
  assumes "\<forall>a\<in>set (b_attributes b). map_of kvs ''type'' \<noteq> Some (JString (attr_name a))"
  shows "update_entry lib b (JObject kvs) = (None, b, [])"
proof (cases "map_of kvs ''type''")
  case None
  then show ?thesis by (simp add: update_entry_def)
next
  case (Some ty)
  with assms have "\<forall>a\<in>set (b_attributes b). JString (attr_name a) \<noteq> ty"
    by auto
  moreover from Some have "py_getitem (JObject kvs) ''type'' = Inr ty"
    by simp
  ultimately have "attr_loop lib b (JObject kvs) 0 (b_attributes b) = (None, b, [])"
    by (rule attr_loop_no_match [rotated])
  with Some show ?thesis
    by (auto simp: update_entry_def split: option.splits)
qed

lemma update_entries_all_skipped:
  "\<forall>s\<in>set entries. update_entry lib b s = (None, b, [])
   \<Longrightarrow> update_entries lib b entries = (None, b, [])"
  by (induction entries) auto

text \<open>
  C5. An entry whose \<^verbatim>\<open>dn\<close> field differs from the bulb's identifier, and an entry whose
  \<^verbatim>\<open>type\<close> is the name of no attribute of the bulb, are processed without an exception,
  leave the bulb (its attribute store included) as it was and call the observer not at
  all; so does a whole payload made of such entries.
\<close>

theorem update_status_frame:
  "(py_getitem status ''dn'' = Inr dn \<and> dn \<noteq> JString (uuid b)
      \<longrightarrow> update_entry lib b status = (None, b, []))
   \<and> ((\<forall>a\<in>set (b_attributes b). map_of kvs ''type'' \<noteq> Some (JString (attr_name a)))
      \<longrightarrow> update_entry lib b (JObject kvs) = (None, b, []))
   \<and> (json_loads lib message = Inr (JArray entries)
       \<and> (\<forall>s\<in>set entries.
             (\<exists>d. py_getitem s ''dn'' = Inr d \<and> d \<noteq> JString (uuid b))
             \<or> (\<exists>k. s = JObject k
                    \<and> (\<forall>a\<in>set (b_attributes b).
                          map_of k ''type'' \<noteq> Some (JString (attr_name a)))))
      \<longrightarrow> update_status lib b message = (None, b, []))"
proof (intro conjI impI)
  assume "py_getitem status ''dn'' = Inr dn \<and> dn \<noteq> JString (uuid b)"
  then show "update_entry lib b status = (None, b, [])"
    using update_entry_other_device by blast
next
  assume "\<forall>a\<in>set (b_attributes b). map_of kvs ''type'' \<noteq> Some (JString (attr_name a))"
  then show "update_entry lib b (JObject kvs) = (None, b, [])"
    by (rule update_entry_unknown_name)
next
  assume h: "json_loads lib message = Inr (JArray entries)
       \<and> (\<forall>s\<in>set entries.
             (\<exists>d. py_getitem s ''dn'' = Inr d \<and> d \<noteq> JString (uuid b))
             \<or> (\<exists>k. s = JObject k
                    \<and> (\<forall>a\<in>set (b_attributes b).
                          map_of k ''type'' \<noteq> Some (JString (attr_name a)))))"
  then have "\<forall>s\<in>set entries. update_entry lib b s = (None, b, [])"
    using update_entry_other_device update_entry_unknown_name by blast
  then have "update_entries lib b entries = (None, b, [])"
    by (rule update_entries_all_skipped)
  with h show "update_status lib b message = (None, b, [])"
    by (simp add: update_status_def)
qed

lemma example_loads:
  "json_loads example_lib payload_missing_value = Inr (JArray [entry_missing_value])"
  "json_loads example_lib payload_switch_off = Inr (JArray [entry_switch_off])"
  "json_loads example_lib payload_foreign = Inr (JArray [entry_other_device, entry_unknown_name])"
  "json_loads example_lib payload_number = Inr (JInt 5)"
  by (simp_all add: example_lib_def example_payloads_def payload_missing_value_def
        payload_switch_off_def payload_foreign_def payload_number_def)

theorem update_status_frame_witness:
  "py_getitem entry_other_device ''dn'' = Inr (JString ''B2'')
   \<and> JString ''B2'' \<noteq> JString (uuid example_bulb)
   \<and> update_entry example_lib example_bulb entry_other_device = (None, example_bulb, [])
   \<and> map attr_name (b_attributes example_bulb) = [''switch'', ''brightness'']
   \<and> py_getitem entry_unknown_name ''type'' = Inr (JString ''colour'')
   \<and> update_entry example_lib example_bulb entry_unknown_name = (None, example_bulb, [])
   \<and> update_status example_lib example_bulb payload_foreign = (None, example_bulb, [])"
proof -
  have u: "uuid example_bulb = ''B1''"
    by (simp add: uuid_def example_bulb_def)
  have d: "py_getitem entry_other_device ''dn'' = Inr (JString ''B2'')"
    by (simp add: entry_other_device_def)
  have n: "\<forall>a\<in>set (b_attributes example_bulb).
         map_of [(''dn'', JString ''B1''), (''type'', JString ''colour''),
                 (''value'', JString ''red'')] ''type'' \<noteq> Some (JString (attr_name a))"
    by (simp add: example_bulb_def)
  have e: "entry_unknown_name = JObject [(''dn'', JString ''B1''), (''type'', JString ''colour''),
                 (''value'', JString ''red'')]"
    by (simp add: entry_unknown_name_def)
  have all: "\<forall>s\<in>set [entry_other_device, entry_unknown_name].
             (\<exists>d. py_getitem s ''dn'' = Inr d \<and> d \<noteq> JString (uuid example_bulb))
             \<or> (\<exists>k. s = JObject k
                    \<and> (\<forall>a\<in>set (b_attributes example_bulb).
                          map_of k ''type'' \<noteq> Some (JString (attr_name a))))"
    using d u n e by auto
  note t = update_status_frame [of entry_other_device "JString ''B2''" example_bulb example_lib
             "[(''dn'', JString ''B1''), (''type'', JString ''colour''), (''value'', JString ''red'')]"
             payload_foreign "[entry_other_device, entry_unknown_name]"]
  have names: "map attr_name (b_attributes example_bulb) = [''switch'', ''brightness'']"
    by (simp add: example_bulb_def)
  from t d u n all example_loads(3) names show ?thesis
    unfolding e by simp
qed

lemma first_attr_append:
  "n \<notin> attr_name ` set pre \<Longrightarrow> first_attr n (pre @ as) = first_attr n as"
  by (induction pre) auto

lemma attr_loop_missing_value:
  assumes "py_getitem status ''type'' = Inr (JString n)"
    and "py_getitem status ''value'' = Inl e"
    and "n \<in> attr_name ` set as"
  shows "attr_loop lib b status i as = (Some e, b, [])"
  using assms(3) by (induction as arbitrary: i) (auto simp: assms(1,2))

lemma attr_loop_unset_callback:
  assumes "b_attribute_update_callback b = None"
    and "py_getitem status ''type'' = Inr (JString n)"
    and "py_getitem status ''value'' = Inr v"
  shows "b_attributes b = pre @ as \<Longrightarrow> n \<notin> attr_name ` set pre \<Longrightarrow> n \<in> attr_name ` set as
    \<Longrightarrow> \<exists>b'. attr_loop lib b status (length pre) as = (Some AttributeError, b', [])
            \<and> first_attr n (b_attributes b') = Some \<lparr>attr_name = n, attr_value = v\<rparr>"
proof (induction as arbitrary: pre)
  case Nil
  then show ?case by simp
next
  case (Cons a as)
  show ?case
  proof (cases "attr_name a = n")
    case True
    let ?b = "b\<lparr>b_attributes := (b_attributes b)[length pre := a\<lparr>attr_value := v\<rparr>]\<rparr>"
    have "b_attributes ?b = pre @ a\<lparr>attr_value := v\<rparr> # as"
      using Cons.prems(1) by simp
    then have "first_attr n (b_attributes ?b) = Some \<lparr>attr_name = n, attr_value = v\<rparr>"
      using Cons.prems(2) True by (simp add: first_attr_append)
    moreover have "attr_loop lib b status (length pre) (a # as) = (Some AttributeError, ?b, [])"
      using True assms by (simp add: notify_def)
    ultimately show ?thesis by blast
  next
    case False
    have "\<exists>b'. attr_loop lib b status (length (pre @ [a])) as = (Some AttributeError, b', [])
            \<and> first_attr n (b_attributes b') = Some \<lparr>attr_name = n, attr_value = v\<rparr>"
      using Cons.prems False by (intro Cons.IH) auto
    then show ?thesis
      using False assms(2) by simp
  qed
qed

lemma update_entry_matching:
  assumes "map_of kvs ''dn'' = Some (JString (uuid b))"
    and "map_of kvs ''type'' = Some ty"
  shows "update_entry lib b (JObject kvs) = attr_loop lib b (JObject kvs) 0 (b_attributes b)"
  using assms by (simp add: update_entry_def)

lemma new_bulb_callback:
  "new_bulb env c info = (Inr b, c') \<Longrightarrow> b_attribute_update_callback b = None"
  by (auto simp: new_bulb_def Let_def split: prod.splits sum.splits)

text \<open>
  C9. On a bulb whose observer slot was never assigned (the constructor does not
  create it), an entry that carries the bulb's identifier, the name of one of its
  attributes and a value ends in \<^verbatim>\<open>AttributeError\<close>, raised when the handler reads the
  slot: the value has been stored by then, the observer is not called, and the handler
  ends with that exception when the entry is the first of its payload.
\<close>

theorem update_status_unset_callback:
  assumes "b_attribute_update_callback b = None"
    and "map_of kvs ''dn'' = Some (JString (uuid b))"
    and "map_of kvs ''type'' = Some (JString n)"
    and "map_of kvs ''value'' = Some v"
    and "n \<in> attr_name ` set (b_attributes b)"
  shows "(\<exists>b'. update_entry lib b (JObject kvs) = (Some AttributeError, b', [])
            \<and> first_attr n (b_attributes b') = Some \<lparr>attr_name = n, attr_value = v\<rparr>)
       \<and> (json_loads lib message = Inr (JArray (JObject kvs # rest))
            \<longrightarrow> fst (update_status lib b message) = Some AttributeError)
       \<and> (\<forall>env c info b0 c'. new_bulb env c info = (Inr b0, c')
            \<longrightarrow> b_attribute_update_callback b0 = None)"
proof -
  have "\<exists>b'. attr_loop lib b (JObject kvs) (length ([]::attribute list)) (b_attributes b)
               = (Some AttributeError, b', [])
            \<and> first_attr n (b_attributes b') = Some \<lparr>attr_name = n, attr_value = v\<rparr>"
    using assms by (intro attr_loop_unset_callback) auto
  then obtain b' where
    b': "update_entry lib b (JObject kvs) = (Some AttributeError, b', [])"
        "first_attr n (b_attributes b') = Some \<lparr>attr_name = n, attr_value = v\<rparr>"
    using update_entry_matching [OF assms(2,3)] by auto
  then have "json_loads lib message = Inr (JArray (JObject kvs # rest))
            \<longrightarrow> fst (update_status lib b message) = Some AttributeError"
    by (simp add: update_status_def)
  with b' new_bulb_callback show ?thesis by blast
qed

theorem update_status_unset_callback_witness:
  "b_attribute_update_callback example_bulb = None
   \<and> update_entry example_lib example_bulb entry_switch_off =
       (Some AttributeError,
        example_bulb\<lparr>b_attributes :=
          [\<lparr>attr_name = ''switch'', attr_value = JString ''0''\<rparr>,
           \<lparr>attr_name = ''brightness'', attr_value = JString ''40''\<rparr>]\<rparr>, [])
   \<and> fst (update_status example_lib example_bulb payload_switch_off) = Some AttributeError"
proof -
  have a: "b_attribute_update_callback example_bulb = None"
    by (simp add: example_bulb_def)
  have u: "uuid example_bulb = ''B1''"
    by (simp add: uuid_def example_bulb_def)
  have n: "''switch'' \<in> attr_name ` set (b_attributes example_bulb)"
    by (simp add: example_bulb_def)
  note t = update_status_unset_callback [of example_bulb
      "[(''dn'', JString ''B1''), (''type'', JString ''switch''), (''value'', JString ''0'')]"
      "''switch''" "JString ''0''" example_lib payload_switch_off "[]"]
  have "fst (update_status example_lib example_bulb payload_switch_off) = Some AttributeError"
    using t a u n example_loads(2) by (simp add: entry_switch_off_def)
  moreover have "update_entry example_lib example_bulb entry_switch_off =
       (Some AttributeError,
        example_bulb\<lparr>b_attributes :=
          [\<lparr>attr_name = ''switch'', attr_value = JString ''0''\<rparr>,
           \<lparr>attr_name = ''brightness'', attr_value = JString ''40''\<rparr>]\<rparr>, [])"
    by (simp add: update_entry_def entry_switch_off_def uuid_def example_bulb_def notify_def)
  ultimately show ?thesis using a by simp
qed

text \<open>
  C2. The handler drops a payload that \<^verbatim>\<open>json.loads\<close> rejects, but not every malformed
  payload: an entry that carries the bulb's identifier and the name of one of its
  attributes and lacks a value ends the handler with \<^verbatim>\<open>KeyError\<close> (the store is not
  written), and a payload that decodes to a number, a boolean or \<^verbatim>\<open>null\<close> ends it with
  \<^verbatim>\<open>TypeError\<close>.
\<close>

theorem update_status_malformed:
  "(json_loads lib message = Inl ValueError \<longrightarrow> update_status lib b message = (None, b, []))
   \<and> (json_loads lib message = Inr (JArray (JObject kvs # rest))
       \<and> map_of kvs ''dn'' = Some (JString (uuid b))
       \<and> map_of kvs ''type'' = Some (JString n)
       \<and> map_of kvs ''value'' = None
       \<and> n \<in> attr_name ` set (b_attributes b)
      \<longrightarrow> update_status lib b message = (Some KeyError, b, []))
   \<and> (json_loads lib message = Inr (JInt i)
      \<longrightarrow> update_status lib b message = (Some TypeError, b, []))"
proof (intro conjI impI)
  assume "json_loads lib message = Inl ValueError"
  then show "update_status lib b message = (None, b, [])"
    by (simp add: update_status_def)
next
  assume h: "json_loads lib message = Inr (JArray (JObject kvs # rest))
       \<and> map_of kvs ''dn'' = Some (JString (uuid b))
       \<and> map_of kvs ''type'' = Some (JString n)
       \<and> map_of kvs ''value'' = None
       \<and> n \<in> attr_name ` set (b_attributes b)"
  then have "attr_loop lib b (JObject kvs) 0 (b_attributes b) = (Some KeyError, b, [])"
    by (intro attr_loop_missing_value [where n = n]) auto
  then have "update_entry lib b (JObject kvs) = (Some KeyError, b, [])"
    using h update_entry_matching [of kvs b "JString n" lib] by simp
  with h show "update_status lib b message = (Some KeyError, b, [])"
    by (simp add: update_status_def)
next
  assume "json_loads lib message = Inr (JInt i)"
  then show "update_status lib b message = (Some TypeError, b, [])"
    by (simp add: update_status_def)
qed

theorem update_status_malformed_witness:
  "map_of [(''dn'', JString ''B1''), (''type'', JString ''switch'')] ''value'' = None
   \<and> update_status example_lib example_bulb payload_missing_value
       = (Some KeyError, example_bulb, [])
   \<and> update_status example_lib example_bulb payload_number = (Some TypeError, example_bulb, [])
   \<and> json_loads example_lib ''{'' = Inl ValueError
   \<and> update_status example_lib example_bulb ''{'' = (None, example_bulb, [])"
proof -
  have u: "uuid example_bulb = ''B1''"
    by (simp add: uuid_def example_bulb_def)
  have n: "''switch'' \<in> attr_name ` set (b_attributes example_bulb)"
    by (simp add: example_bulb_def)
  have l: "json_loads example_lib ''{'' = Inl ValueError"
    by (simp add: example_lib_def example_payloads_def payload_missing_value_def
        payload_switch_off_def payload_foreign_def payload_number_def)
  note t1 = update_status_malformed [of example_lib payload_missing_value example_bulb
      "[(''dn'', JString ''B1''), (''type'', JString ''switch'')]" "[]" "''switch''" 5]
  note t2 = update_status_malformed [of example_lib payload_number example_bulb
      "[(''dn'', JString ''B1''), (''type'', JString ''switch'')]" "[]" "''switch''" 5]
  note t3 = update_status_malformed [of example_lib "''{''" example_bulb
      "[(''dn'', JString ''B1''), (''type'', JString ''switch'')]" "[]" "''switch''" 5]
  have "update_status example_lib example_bulb payload_missing_value
       = (Some KeyError, example_bulb, [])"
    using t1 u n example_loads(1) by (simp add: entry_missing_value_def)
  moreover have "update_status example_lib example_bulb payload_number
       = (Some TypeError, example_bulb, [])"
    using t2 example_loads(4) by simp
  moreover have "update_status example_lib example_bulb ''{'' = (None, example_bulb, [])"
    using t3 l by simp
  ultimately show ?thesis using l by simp
qed

lemma dict_set_same: "map_of d k = Some v \<Longrightarrow> dict_set k v d = d"
  by (induction d) (auto split: if_splits)

lemma subscribe_mqtt_same_handler:
  assumes "map_of (subscribed c) topic = Some cb"
  shows "subscribed (snd (subscribe_mqtt env c topic cb)) = subscribed c"
  using assms
  by (auto simp: subscribe_mqtt_def record_calls_def Let_def dict_set_same
           split: option.splits sum.splits)

lemma subscribe_mqtt_client:
  "mqtt_client (snd (subscribe_mqtt env c topic cb)) = mqtt_client c"
  by (auto simp: subscribe_mqtt_def record_calls_def Let_def split: option.splits sum.splits)

lemma subscribe_mqtt_calls:
  "mqtt_client c \<noteq> None
   \<Longrightarrow> calls (snd (subscribe_mqtt env c topic cb)) = calls c @ [Mqtt_subscribe topic]"
  by (auto simp: subscribe_mqtt_def record_calls_def Let_def split: option.splits sum.splits)

lemma resubscribe_registry: "subscribed (snd (resubscribe env c topics)) = subscribed c"
proof (induction topics arbitrary: c)
  case Nil
  then show ?case by simp
next
  case (Cons t ts)
  show ?case
  proof (cases "map_of (subscribed c) t")
    case None
    then show ?thesis by simp
  next
    case (Some cb)
    obtain r c' where s: "subscribe_mqtt env c t cb = (r, c')"
      by (cases "subscribe_mqtt env c t cb")
    with Some have reg: "subscribed c' = subscribed c"
      using subscribe_mqtt_same_handler [of c t cb env] by simp
    show ?thesis
    proof (cases r)
      case (Inl e)
      with Some s reg show ?thesis by simp
    next
      case (Inr ok)
      with Some s reg Cons.IH [of c'] show ?thesis by simp
    qed
  qed
qed

lemma resubscribe_calls:
  "mqtt_client c \<noteq> None \<Longrightarrow> resubscribe env c topics = (Inr u, c')
   \<Longrightarrow> calls c' = calls c @ map Mqtt_subscribe topics"
proof (induction topics arbitrary: c)
  case Nil
  then show ?case by simp
next
  case (Cons t ts)
  from Cons.prems(2) obtain cb where cb: "map_of (subscribed c) t = Some cb"
    by (cases "map_of (subscribed c) t") auto
  obtain r c1 where s: "subscribe_mqtt env c t cb = (r, c1)"
    by (cases "subscribe_mqtt env c t cb")
  from Cons.prems(2) cb s obtain ok where r: "r = Inr ok"
    by (cases r) auto
  from Cons.prems(2) cb s r have rest: "resubscribe env c1 ts = (Inr u, c')"
    by simp
  have m: "mqtt_client c1 \<noteq> None"
    using subscribe_mqtt_client [of env c t cb] s Cons.prems(1) by simp
  have "calls c1 = calls c @ [Mqtt_subscribe t]"
    using subscribe_mqtt_calls [OF Cons.prems(1), of env t cb] s by simp
  with Cons.IH [OF m rest] show ?case by simp
qed

lemma reinitialize_mqtt_registry:
  "subscribed (snd (reinitialize_mqtt env c)) = subscribed c"
proof -
  let ?c2 = "record_calls [Mqtt_loop_start]
               (record_calls [Mqtt_loop_stop, Mqtt_disconnect,
                  Mqtt_ws_set_options (ws_path (mqtt_server c)) (jsession_id c),
                  Mqtt_reconnect] c)"
  have "subscribed (snd (resubscribe env ?c2 (map fst (subscribed ?c2)))) = subscribed ?c2"
    by (rule resubscribe_registry)
  then show ?thesis
    by (auto simp: reinitialize_mqtt_def Let_def record_calls_def
             split: option.splits prod.splits sum.splits)
qed

lemma reinitialize_mqtt_calls:
  assumes "reinitialize_mqtt env c = (Inr True, c')"
  shows "calls c' = calls c @
           [Mqtt_loop_stop, Mqtt_disconnect,
            Mqtt_ws_set_options (ws_path (mqtt_server c)) (jsession_id c),
            Mqtt_reconnect, Mqtt_loop_start] @
           map Mqtt_subscribe (map fst (subscribed c))"
proof -
  let ?c2 = "record_calls [Mqtt_loop_start]
               (record_calls [Mqtt_loop_stop, Mqtt_disconnect,
                  Mqtt_ws_set_options (ws_path (mqtt_server c)) (jsession_id c),
                  Mqtt_reconnect] c)"
  from assms have m: "mqtt_client c \<noteq> None"
    by (auto simp: reinitialize_mqtt_def split: if_splits)
  from assms m have "resubscribe env ?c2 (map fst (subscribed ?c2)) = (Inr (), c')"
    by (auto simp: reinitialize_mqtt_def Let_def
             split: if_splits option.splits prod.splits sum.splits)
  moreover have "mqtt_client ?c2 \<noteq> None"
    using m by (simp add: record_calls_def)
  ultimately have "calls c' = calls ?c2 @ map Mqtt_subscribe (map fst (subscribed ?c2))"
    by (rule resubscribe_calls [rotated])
  then show ?thesis by (simp add: record_calls_def)
qed

lemma count_list_distinct: "distinct xs \<Longrightarrow> x \<in> set xs \<Longrightarrow> count_list xs x = 1"
  by (induction xs) (auto simp: count_list_0_iff)

lemma count_subscribe:
  "count_list (es @ map Mqtt_subscribe ts) (Mqtt_subscribe t) =
     count_list es (Mqtt_subscribe t) + count_list ts t"
  by (induction ts) (auto simp: count_list_append)

lemma reconnects_registry: "subscribed (reconnects env c n) = subscribed c"
  by (induction n arbitrary: c) (simp_all add: reinitialize_mqtt_registry)

text \<open>
  C6. A reconnect never changes the subscription registry, whatever its outcome. When
  it completes (returns \<^verbatim>\<open>True\<close>) the calls it made are the teardown and the reconnect
  followed by one \<^verbatim>\<open>subscribe\<close> for each registry entry, in registry order, so that each
  registered topic is subscribed exactly once (the keys of a dictionary are distinct).
  The same holds for a reconnect that follows any number of earlier reconnects: the
  registry is still the original one.
\<close>

theorem reinitialize_mqtt_resubscribes:
  "subscribed (snd (reinitialize_mqtt env c)) = subscribed c
   \<and> subscribed (reconnects env c n) = subscribed c
   \<and> (reinitialize_mqtt env (reconnects env c n) = (Inr True, c') \<longrightarrow>
        subscribed c' = subscribed c
        \<and> calls c' = calls (reconnects env c n) @
            [Mqtt_loop_stop, Mqtt_disconnect,
             Mqtt_ws_set_options (ws_path (mqtt_server (reconnects env c n)))
               (jsession_id (reconnects env c n)),
             Mqtt_reconnect, Mqtt_loop_start] @
            map Mqtt_subscribe (map fst (subscribed c))
        \<and> (distinct (map fst (subscribed c)) \<longrightarrow>
             (\<forall>t\<in>set (map fst (subscribed c)).
                count_list (drop (length (calls (reconnects env c n))) (calls c'))
                  (Mqtt_subscribe t) = 1)))"
proof (intro conjI impI)
  show "subscribed (snd (reinitialize_mqtt env c)) = subscribed c"
    by (rule reinitialize_mqtt_registry)
  show r: "subscribed (reconnects env c n) = subscribed c"
    by (rule reconnects_registry)
  assume a: "reinitialize_mqtt env (reconnects env c n) = (Inr True, c')"
  show "subscribed c' = subscribed c"
    using reinitialize_mqtt_registry [of env "reconnects env c n"] a r by simp
  show cs: "calls c' = calls (reconnects env c n) @
            [Mqtt_loop_stop, Mqtt_disconnect,
             Mqtt_ws_set_options (ws_path (mqtt_server (reconnects env c n)))
               (jsession_id (reconnects env c n)),
             Mqtt_reconnect, Mqtt_loop_start] @
            map Mqtt_subscribe (map fst (subscribed c))"
    using reinitialize_mqtt_calls [OF a] r by simp
  assume d: "distinct (map fst (subscribed c))"
  show "\<forall>t\<in>set (map fst (subscribed c)).
                count_list (drop (length (calls (reconnects env c n))) (calls c'))
                  (Mqtt_subscribe t) = 1"
  proof
    fix t assume t: "t \<in> set (map fst (subscribed c))"
    have "drop (length (calls (reconnects env c n))) (calls c') =
            [Mqtt_loop_stop, Mqtt_disconnect,
             Mqtt_ws_set_options (ws_path (mqtt_server (reconnects env c n)))
               (jsession_id (reconnects env c n)),
             Mqtt_reconnect, Mqtt_loop_start] @
            map Mqtt_subscribe (map fst (subscribed c))"
      using cs by simp
    then show "count_list (drop (length (calls (reconnects env c n))) (calls c'))
                  (Mqtt_subscribe t) = 1"
      using count_list_distinct [OF d t] by (simp only: count_subscribe) simp
  qed
qed

theorem reinitialize_mqtt_resubscribes_witness:
  "reinitialize_mqtt example_env (reconnects example_env connected_client 2)
     = (Inr True, snd (reinitialize_mqtt example_env (reconnects example_env connected_client 2)))
   \<and> distinct (map fst (subscribed connected_client))
   \<and> subscribed (snd (reinitialize_mqtt example_env (reconnects example_env connected_client 2)))
       = [(''wifielement/B1/status'', Update_status ''B1'')]
   \<and> count_list
        (drop (length (calls (reconnects example_env connected_client 2)))
           (calls (snd (reinitialize_mqtt example_env
                          (reconnects example_env connected_client 2)))))
        (Mqtt_subscribe ''wifielement/B1/status'') = 1"
proof -
  let ?c = "reconnects example_env connected_client 2"
  have reg: "subscribed connected_client = [(''wifielement/B1/status'', Update_status ''B1'')]"
    by (simp add: connected_client_def)
  have sub: "\<And>n t. mqtt_subscribe_result example_env n ''wifielement/B1/status'' = Inr 0"
    by (simp add: example_env_def)
  have con: "\<And>n. mqtt_connect_result example_env n = None"
    by (simp add: example_env_def)
  have step: "\<And>c. mqtt_client c = Some () \<Longrightarrow> jsession_id c = JString ''S1''
      \<Longrightarrow> subscribed c = [(''wifielement/B1/status'', Update_status ''B1'')]
      \<Longrightarrow> fst (reinitialize_mqtt example_env c) = Inr True
          \<and> mqtt_client (snd (reinitialize_mqtt example_env c)) = Some ()
          \<and> jsession_id (snd (reinitialize_mqtt example_env c)) = JString ''S1''"
    by (simp add: reinitialize_mqtt_def record_calls_def Let_def subscribe_mqtt_def sub con
          MQTT_ERR_SUCCESS_def)
  have c0: "mqtt_client connected_client = Some ()" "jsession_id connected_client = JString ''S1''"
    by (simp_all add: connected_client_def)
  let ?c1 = "snd (reinitialize_mqtt example_env connected_client)"
  let ?c2 = "snd (reinitialize_mqtt example_env ?c1)"
  have c1: "mqtt_client ?c1 = Some ()" "jsession_id ?c1 = JString ''S1''"
    using step [OF c0 reg] by simp_all
  have r1: "subscribed ?c1 = [(''wifielement/B1/status'', Update_status ''B1'')]"
    using reinitialize_mqtt_registry [of example_env connected_client] reg by simp
  have c2: "mqtt_client ?c2 = Some ()" "jsession_id ?c2 = JString ''S1''"
    using step [OF c1 r1] by simp_all
  have r2: "subscribed ?c2 = [(''wifielement/B1/status'', Update_status ''B1'')]"
    using reinitialize_mqtt_registry [of example_env ?c1] r1 by simp
  have eq: "?c = ?c2"
    by (simp add: numeral_2_eq_2)
  have ok: "fst (reinitialize_mqtt example_env ?c) = Inr True"
    using step [OF c2 r2] eq by simp
  then have run: "reinitialize_mqtt example_env ?c
      = (Inr True, snd (reinitialize_mqtt example_env ?c))"
    by (metis prod.collapse)
  have dist: "distinct (map fst (subscribed connected_client))"
    by (simp add: reg)
  show ?thesis
    using reinitialize_mqtt_resubscribes [of example_env connected_client 2
            "snd (reinitialize_mqtt example_env ?c)"] run dist reg
    by simp
qed

lemma http_post_server: "mqtt_server (snd (http_post env url c)) = mqtt_server c"
  by (simp add: http_post_def record_calls_def)




lemma subscribe_mqtt_devices: "devices (snd (subscribe_mqtt env c topic cb)) = devices c"
  by (auto simp: subscribe_mqtt_def record_calls_def Let_def split: option.splits sum.splits)

lemma new_bulb_devices: "devices (snd (new_bulb env c info)) = devices c"
  using subscribe_mqtt_devices [of env c "status_topic (deviceUuid info)"
          "Update_status (deviceUuid info)"]
  by (auto simp: new_bulb_def Let_def uuid_def split: prod.splits sum.splits)

lemma new_bulb_uuid: "new_bulb env c info = (Inr b, c') \<Longrightarrow> uuid b = deviceUuid info"
  by (auto simp: new_bulb_def Let_def uuid_def split: prod.splits sum.splits)

lemma add_devices_invariant:
  "distinct (map uuid (devices c))
   \<Longrightarrow> distinct (map uuid (devices (snd (add_devices env c ds))))
       \<and> (\<exists>new. devices (snd (add_devices env c ds)) = devices c @ new)"
proof (induction ds arbitrary: c)
  case Nil
  then show ?case by simp
next
  case (Cons d ds)
  show ?case
  proof (cases "deviceUuid d \<in> set (map uuid (devices c))")
    case True
    with Cons show ?thesis by simp
  next
    case False
    obtain r c1 where nb: "new_bulb env c d = (r, c1)"
      by (cases "new_bulb env c d")
    have dev: "devices c1 = devices c"
      using new_bulb_devices [of env c d] nb by simp
    show ?thesis
    proof (cases r)
      case (Inl e)
      with False nb dev Cons.prems show ?thesis by simp
    next
      case (Inr b)
      let ?c2 = "c1\<lparr>devices := devices c1 @ [b]\<rparr>"
      have "uuid b = deviceUuid d"
        using new_bulb_uuid nb Inr by blast
      with False dev Cons.prems have "distinct (map uuid (devices ?c2))"
        by simp
      from Cons.IH [OF this] dev
      have "distinct (map uuid (devices (snd (add_devices env ?c2 ds))))
            \<and> (\<exists>new. devices (snd (add_devices env ?c2 ds)) = devices c @ new)"
        by auto
      with False nb Inr show ?thesis by simp
    qed
  qed
qed

lemma get_devices_cases:
  "devices (snd (get_devices env c force_update)) = devices c
   \<or> (\<exists>ds. snd (get_devices env c force_update)
              = snd (add_devices env (record_calls [Http_post url_device_list] c) ds))"
proof -
  let ?c1 = "record_calls [Http_post url_device_list] c"
  have d1: "devices ?c1 = devices c"
    by (simp add: record_calls_def)
  show ?thesis
  proof (cases "\<exists>ds. ds \<noteq> [] \<and> truthy (jsession_id c)
                  \<and> \<not> (length (devices c) > 0 \<and> \<not> force_update)
                  \<and> http_device_list env (length (calls c)) = Reply 200 (Some (Some ds))")
    case True
    then obtain ds where ds: "ds \<noteq> []" "truthy (jsession_id c)"
        "\<not> (length (devices c) > 0 \<and> \<not> force_update)"
        "http_device_list env (length (calls c)) = Reply 200 (Some (Some ds))"
      by blast
    have "snd (get_devices env c force_update) = snd (add_devices env ?c1 ds)"
      using ds by (cases "add_devices env ?c1 ds"; cases "fst (add_devices env ?c1 ds)")
                  (auto simp: get_devices_def Let_def)
    then show ?thesis by blast
  next
    case False
    then have "devices (snd (get_devices env c force_update)) = devices c"
      using d1
      by (auto simp: get_devices_def Let_def split: http_reply.splits option.splits)
    then show ?thesis by blast
  qed
qed

lemma get_devices_invariant:
  assumes "distinct (map uuid (devices c))"
  shows "distinct (map uuid (devices (snd (get_devices env c force_update))))
       \<and> (\<exists>new. devices (snd (get_devices env c force_update)) = devices c @ new)"
proof -
  let ?c1 = "record_calls [Http_post url_device_list] c"
  have d1: "devices ?c1 = devices c"
    by (simp add: record_calls_def)
  have inv: "\<And>ds. distinct (map uuid (devices (snd (add_devices env ?c1 ds))))
       \<and> (\<exists>new. devices (snd (add_devices env ?c1 ds)) = devices c @ new)"
    using add_devices_invariant [of ?c1 env] assms d1 by simp
  from get_devices_cases [of env c force_update] show ?thesis
  proof
    assume "devices (snd (get_devices env c force_update)) = devices c"
    with assms show ?thesis by simp
  next
    assume "\<exists>ds. snd (get_devices env c force_update) = snd (add_devices env ?c1 ds)"
    then obtain ds where "snd (get_devices env c force_update) = snd (add_devices env ?c1 ds)"
      by blast
    with inv [of ds] show ?thesis by simp
  qed
qed

lemma refreshes_invariant:
  "distinct (map uuid (devices c))
   \<Longrightarrow> distinct (map uuid (devices (refreshes env c flags)))
       \<and> (\<exists>new. devices (refreshes env c flags) = devices c @ new)"
proof (induction flags arbitrary: c)
  case Nil
  then show ?case by simp
next
  case (Cons f fs)
  let ?c1 = "snd (get_devices env c f)"
  from get_devices_invariant [OF Cons.prems, of env f]
  obtain new1 where s: "distinct (map uuid (devices ?c1))" "devices ?c1 = devices c @ new1"
    by blast
  from Cons.IH [OF s(1)] obtain new2 where
    "distinct (map uuid (devices (refreshes env ?c1 fs)))"
    "devices (refreshes env ?c1 fs) = devices ?c1 @ new2"
    by blast
  with s show ?case by simp
qed

text \<open>
  C8. One directory refresh, and any sequence of refreshes (forced or not, whatever the
  server answers), keeps the identifiers of the cached bulbs pairwise different and only
  ever appends to the cache: the list before is a prefix of the list after, so no bulb
  is removed. The cache of a new client is empty.
\<close>

theorem get_devices_no_duplicates:
  "devices (new_client instance_id username password) = []
   \<and> (distinct (map uuid (devices c)) \<longrightarrow>
        distinct (map uuid (devices (snd (get_devices env c force_update))))
        \<and> (\<exists>new. devices (snd (get_devices env c force_update)) = devices c @ new)
        \<and> distinct (map uuid (devices (refreshes env c flags)))
        \<and> (\<exists>new. devices (refreshes env c flags) = devices c @ new))"
  using get_devices_invariant [of c env force_update] refreshes_invariant [of c env flags]
  by (simp add: new_client_def)

lemma example_refreshes:
  "map uuid (devices (refreshes example_env connected_client [True, True])) = [''B1'']"
  "devices (refreshes failing_env (refreshes example_env connected_client [True, True]) [True])
     = devices (refreshes example_env connected_client [True, True])"
proof -
  have lst: "\<And>n. http_device_list example_env n = Reply 200 (Some (Some example_devices))"
    by (simp add: example_env_def)
  have sub: "\<And>n. mqtt_subscribe_result example_env n ''wifielement/B1/status'' = Inr 0"
    by (simp add: example_env_def)
  have failing: "\<And>c f. devices (snd (get_devices failing_env c f)) = devices c"
    by (simp add: get_devices_def failing_env_def record_calls_def Let_def)
  show "map uuid (devices (refreshes example_env connected_client [True, True])) = [''B1'']"
    by (simp add: get_devices_def lst example_devices_def new_bulb_def subscribe_mqtt_def
          record_calls_def Let_def status_topic_def uuid_def sub MQTT_ERR_SUCCESS_def
          connected_client_def new_client_def)
  show "devices (refreshes failing_env (refreshes example_env connected_client [True, True]) [True])
     = devices (refreshes example_env connected_client [True, True])"
    by (simp add: failing)
qed

theorem get_devices_no_duplicates_witness:
  "distinct (map uuid (devices connected_client))
   \<and> map deviceUuid example_devices = [''B1'', ''B1'']
   \<and> distinct (map uuid (devices (refreshes example_env connected_client [True, True])))
   \<and> (\<exists>new. devices (refreshes example_env connected_client [True, True])
               = devices connected_client @ new)
   \<and> map uuid (devices (refreshes example_env connected_client [True, True])) = [''B1'']
   \<and> map uuid (devices (refreshes failing_env
                           (refreshes example_env connected_client [True, True]) [True]))
       = [''B1'']"
proof -
  have d0: "distinct (map uuid (devices connected_client))"
    by (simp add: connected_client_def new_client_def)
  have ids: "map deviceUuid example_devices = [''B1'', ''B1'']"
    by (simp add: example_devices_def)
  note t = get_devices_no_duplicates [of "''0123456789abcdef''" "''user''" "''secret''"
             connected_client example_env True "[True, True]"]
  from t d0 have "distinct (map uuid (devices (refreshes example_env connected_client [True, True])))
     \<and> (\<exists>new. devices (refreshes example_env connected_client [True, True])
               = devices connected_client @ new)"
    by blast
  with d0 ids example_refreshes show ?thesis
    by simp
qed

lemma is_session_timeout_valid:
  assumes "truthy (jsession_id c)"
    and "http_json env (length (calls c)) url_session_timeout = Reply 200 (Some data)"
    and "py_getitem data ''info'' = Inr (JString ''OK'')"
  shows "is_session_timeout env c = (Inr False, record_calls [Http_post url_session_timeout] c)"
proof -
  from assms(3) have "py_in ''info'' data = Inr True"
    by (cases data) (auto split: option.splits)
  with assms show ?thesis
    by (simp add: is_session_timeout_def http_post_def)
qed

text \<open>
  C1. With a session token and a probe that reports the session valid (status 200 and
  \<^verbatim>\<open>info\<close> equal to \<^verbatim>\<open>OK\<close>), \<^verbatim>\<open>login\<close> makes the probe request and nothing else: the
  authentication endpoint is not contacted and the client state, the token included,
  is as before apart from the recorded probe. The value returned is \<^verbatim>\<open>None\<close> (the bare
  \<^verbatim>\<open>return\<close> of line 308), not \<^verbatim>\<open>True\<close>. A second call whose probe is again answered as
  valid does the same.
\<close>

theorem login_valid_session:
  assumes "truthy (jsession_id c)"
    and "http_json env (length (calls c)) url_session_timeout = Reply 200 (Some data)"
    and "py_getitem data ''info'' = Inr (JString ''OK'')"
  shows "login lib env c = (Inr None, c\<lparr>calls := calls c @ [Http_post url_session_timeout]\<rparr>)
       \<and> fst (login lib env c) \<noteq> Inr (Some True)
       \<and> jsession_id (snd (login lib env c)) = jsession_id c
       \<and> (http_json env (Suc (length (calls c))) url_session_timeout = Reply 200 (Some data)
            \<longrightarrow> login lib env (snd (login lib env c))
                  = (Inr None,
                     c\<lparr>calls := calls c @ [Http_post url_session_timeout,
                                            Http_post url_session_timeout]\<rparr>))"
proof -
  have first: "login lib env c = (Inr None, record_calls [Http_post url_session_timeout] c)"
    using assms is_session_timeout_valid [OF assms] by (simp add: login_def)
  let ?c1 = "record_calls [Http_post url_session_timeout] c"
  have t1: "truthy (jsession_id ?c1)" "length (calls ?c1) = Suc (length (calls c))"
    using assms(1) by (simp_all add: record_calls_def)
  have second: "login lib env ?c1 = (Inr None, record_calls [Http_post url_session_timeout] ?c1)"
    if "http_json env (Suc (length (calls c))) url_session_timeout = Reply 200 (Some data)"
    using that t1 assms(3) is_session_timeout_valid [of ?c1 env data]
    by (simp add: login_def)
  from first second show ?thesis
    by (simp add: record_calls_def)
qed

theorem login_valid_session_witness:
  "truthy (jsession_id connected_client)
   \<and> http_json example_env (length (calls connected_client)) url_session_timeout
       = Reply 200 (Some (JObject [(''info'', JString ''OK'')]))
   \<and> login example_lib example_env connected_client
       = (Inr None, connected_client\<lparr>calls := [Http_post url_session_timeout]\<rparr>)
   \<and> fst (login example_lib example_env connected_client) \<noteq> Inr (Some True)"
proof -
  have t: "truthy (jsession_id connected_client)"
    by (simp add: connected_client_def)
  have c: "calls connected_client = []"
    by (simp add: connected_client_def new_client_def)
  have r: "http_json example_env (length (calls connected_client)) url_session_timeout
       = Reply 200 (Some (JObject [(''info'', JString ''OK'')]))"
    by (simp add: example_env_def)
  have g: "py_getitem (JObject [(''info'', JString ''OK'')]) ''info'' = Inr (JString ''OK'')"
    by simp
  show ?thesis
    using login_valid_session [OF t r g, of example_lib] t r c by simp
qed

end
